theory Spec2Isabelle
  imports Complex_Main "HOL-Library.Log_Nat"
begin

section \<open>Numbers, arrays and exceptions\<close>

text \<open>
  The module \<^verbatim>\<open>pyshapelets/util.py\<close> computes with numpy arrays of float64 numbers (the
  specification's sequences of floating-point reals; integer arrays are not modelled).
  A number is a real, one of the two infinities, or NaN. Every arithmetic operation of
  the module takes the rounding as its first argument, a function from the exact result
  of the operation to the number that is stored: \<open>exact\<close> stores the exact result and
  gives the arithmetic of the reals, \<open>float64\<close> rounds to the nearest double (ties to
  even, overflow to an infinity, gradual underflow) and gives the arithmetic the program
  runs with. The operations on infinities and NaN, and the division by zero, follow
  IEEE 754; numpy returns NaN or an infinity there (with a warning), it does not raise.
  The sign of a zero is not modelled: every zero is +0, so that a nonzero number divided
  by zero has the sign of the dividend. In this module a divisor that is zero is +0
  whenever the window length is not negative.
\<close>

datatype npfloat = Finite real | PInf | MInf | NaN

type_synonym rounding = "real \<Rightarrow> npfloat"

abbreviation (input) exact :: rounding where
  "exact \<equiv> Finite"

text \<open>\<open>pow2 e\<close> is \<open>2\<close> to the power \<open>e\<close>; \<open>exponent x\<close> is the integer \<open>e\<close> with
  \<open>pow2 e \<le> |x| < pow2 (e + 1)\<close> for \<open>x \<noteq> 0\<close> (through the bit length of the integer part
  of \<open>|x|\<close>, or of \<open>1 / |x|\<close> rounded up when \<open>|x| < 1\<close>).\<close>

definition pow2 :: "int \<Rightarrow> real" where
  "pow2 e = (if 0 \<le> e then 2 ^ nat e else 1 / 2 ^ nat (- e))"

definition exponent :: "real \<Rightarrow> int" where
  "exponent x = (if 1 \<le> \<bar>x\<bar> then bitlen \<lfloor>\<bar>x\<bar>\<rfloor> - 1 else - bitlen (\<lceil>1 / \<bar>x\<bar>\<rceil> - 1))"

text \<open>The nearest integer, the even one of the two when they are equally near.\<close>

definition round_half_even :: "real \<Rightarrow> int" where
  "round_half_even y =
     (let f = \<lfloor>y\<rfloor>; d = y - of_int f
      in if d < 1 / 2 then f else if 1 / 2 < d then f + 1 else if even f then f else f + 1)"

text \<open>The double nearest to a real: 53 significant bits, the exponent at least -1022
  (below, the spacing stays \<open>2\<close> to the power \<open>-1074\<close>), and an infinity when the rounded
  magnitude reaches \<open>2\<close> to the power \<open>1024\<close>.\<close>

definition float64 :: rounding where
  "float64 x =
     (if x = 0 then Finite 0
      else let e = max (exponent x) (- 1022);
               q = pow2 (e - 52);
               r = of_int (round_half_even (x / q)) * q
           in if 2 ^ 1024 \<le> \<bar>r\<bar> then (if 0 < x then PInf else MInf) else Finite r)"

text \<open>A real is a double when rounding leaves it as it is.\<close>

definition representable :: "real \<Rightarrow> bool" where
  "representable x = (float64 x = Finite x)"

text \<open>The exceptions numpy can raise in this module: an index out of bounds, and two
  array operands whose shapes cannot be broadcast together.\<close>

datatype error = IndexError | ValueError

definition inf_of :: "bool \<Rightarrow> npfloat" where
  "inf_of negative = (if negative then MInf else PInf)"

fun is_neg :: "npfloat \<Rightarrow> bool" where
  "is_neg (Finite a) = (a < 0)"
| "is_neg MInf = True"
| "is_neg PInf = False"
| "is_neg NaN = False"

fun np_add :: "rounding \<Rightarrow> npfloat \<Rightarrow> npfloat \<Rightarrow> npfloat" where
  "np_add rnd (Finite a) (Finite b) = rnd (a + b)"
| "np_add rnd NaN _ = NaN"
| "np_add rnd _ NaN = NaN"
| "np_add rnd PInf MInf = NaN"
| "np_add rnd MInf PInf = NaN"
| "np_add rnd PInf _ = PInf"
| "np_add rnd MInf _ = MInf"
| "np_add rnd _ PInf = PInf"
| "np_add rnd _ MInf = MInf"

fun np_sub :: "rounding \<Rightarrow> npfloat \<Rightarrow> npfloat \<Rightarrow> npfloat" where
  "np_sub rnd (Finite a) (Finite b) = rnd (a - b)"
| "np_sub rnd NaN _ = NaN"
| "np_sub rnd _ NaN = NaN"
| "np_sub rnd PInf PInf = NaN"
| "np_sub rnd MInf MInf = NaN"
| "np_sub rnd PInf _ = PInf"
| "np_sub rnd MInf _ = MInf"
| "np_sub rnd _ PInf = MInf"
| "np_sub rnd _ MInf = PInf"

fun np_mul :: "rounding \<Rightarrow> npfloat \<Rightarrow> npfloat \<Rightarrow> npfloat" where
  "np_mul rnd (Finite a) (Finite b) = rnd (a * b)"
| "np_mul rnd NaN _ = NaN"
| "np_mul rnd _ NaN = NaN"
| "np_mul rnd a b =
     (if a = Finite 0 \<or> b = Finite 0 then NaN else inf_of (is_neg a \<noteq> is_neg b))"

text \<open>Division by zero is not an exception for numpy numbers: \<open>0 / 0\<close> is NaN, any other
  number over zero is an infinity. A finite number over an infinity is zero.\<close>

fun np_div :: "rounding \<Rightarrow> npfloat \<Rightarrow> npfloat \<Rightarrow> npfloat" where
  "np_div rnd (Finite a) (Finite b) =
     (if b = 0 then (if a = 0 then NaN else inf_of (a < 0)) else rnd (a / b))"
| "np_div rnd NaN _ = NaN"
| "np_div rnd _ NaN = NaN"
| "np_div rnd (Finite a) _ = Finite 0"
| "np_div rnd a (Finite b) = inf_of (is_neg a \<noteq> (b < 0))"
| "np_div rnd _ _ = NaN"

fun np_sqrt :: "rounding \<Rightarrow> npfloat \<Rightarrow> npfloat" where
  "np_sqrt rnd (Finite a) = (if a < 0 then NaN else rnd (sqrt a))"
| "np_sqrt rnd PInf = PInf"
| "np_sqrt rnd MInf = NaN"
| "np_sqrt rnd NaN = NaN"

text \<open>\<^verbatim>\<open>a ** 2\<close> and \<^verbatim>\<open>np.power(a, 2)\<close>: the rounded square.\<close>

definition np_square :: "rounding \<Rightarrow> npfloat \<Rightarrow> npfloat" where
  "np_square rnd a = np_mul rnd a a"

text \<open>\<^verbatim>\<open>np.sum\<close>, adding from left to right. That is the order of numpy for an array of
  fewer than eight elements; a longer array numpy adds in blocks, in another order. In
  exact arithmetic the order does not matter; the theorems below about \<open>float64\<close> sums
  are about arrays of fewer than eight elements.\<close>

definition np_sum :: "rounding \<Rightarrow> npfloat list \<Rightarrow> npfloat" where
  "np_sum rnd x = foldl (np_add rnd) (Finite 0) x"

text \<open>\<^verbatim>\<open>np.mean\<close>: the sum over the number of elements (NaN for an empty array).\<close>

definition np_mean :: "rounding \<Rightarrow> npfloat list \<Rightarrow> npfloat" where
  "np_mean rnd x = np_div rnd (np_sum rnd x) (rnd (real (length x)))"

text \<open>\<^verbatim>\<open>np.std\<close> with its default \<^verbatim>\<open>ddof=0\<close>: the population standard deviation,
  the square root of the mean of the squared deviations from the mean.\<close>

definition np_std :: "rounding \<Rightarrow> npfloat list \<Rightarrow> npfloat" where
  "np_std rnd x =
     (let mu = np_mean rnd x
      in np_sqrt rnd (np_mean rnd (map (\<lambda>a. np_square rnd (np_sub rnd a mu)) x)))"

text \<open>\<^verbatim>\<open>np.linalg.norm\<close> of a one-dimensional array: the 2-norm, the square root of the
  sum of the squares (added from left to right, as in \<open>np_sum\<close>).\<close>

definition np_linalg_norm :: "rounding \<Rightarrow> npfloat list \<Rightarrow> npfloat" where
  "np_linalg_norm rnd x = np_sqrt rnd (np_sum rnd (map (np_square rnd) x))"

text \<open>\<^verbatim>\<open>np.cumsum\<close>: the running sums, from the first element on.\<close>

primrec cumsum_from :: "rounding \<Rightarrow> npfloat \<Rightarrow> npfloat list \<Rightarrow> npfloat list" where
  "cumsum_from rnd s [] = []"
| "cumsum_from rnd s (a # as) = np_add rnd s a # cumsum_from rnd (np_add rnd s a) as"

definition np_cumsum :: "rounding \<Rightarrow> npfloat list \<Rightarrow> npfloat list" where
  "np_cumsum rnd x = (case x of [] \<Rightarrow> [] | a # as \<Rightarrow> a # cumsum_from rnd a as)"

text \<open>An operator between two one-dimensional arrays (\<^verbatim>\<open>x - y\<close>, \<^verbatim>\<open>x * y\<close>): element by
  element when the lengths agree, an array of length one is broadcast over the other, any
  other pair of shapes raises ValueError.\<close>

definition np_broadcast ::
  "(npfloat \<Rightarrow> npfloat \<Rightarrow> npfloat) \<Rightarrow> npfloat list \<Rightarrow> npfloat list \<Rightarrow> error + npfloat list" where
  "np_broadcast f x y =
     (if length x = length y then Inr (map2 f x y)
      else if length x = 1 then Inr (map (f (hd x)) y)
      else if length y = 1 then Inr (map (\<lambda>a. f a (hd y)) x)
      else Inl ValueError)"

text \<open>An index into an axis of length \<open>n\<close>: a negative index counts from the end, an index
  outside \<open>[-n, n)\<close> raises IndexError.\<close>

definition np_index :: "nat \<Rightarrow> int \<Rightarrow> error + nat" where
  "np_index n i =
     (if 0 \<le> i \<and> i < int n then Inr (nat i)
      else if - int n \<le> i \<and> i < 0 then Inr (nat (int n + i))
      else Inl IndexError)"

definition and_then :: "error + 'a \<Rightarrow> ('a \<Rightarrow> error + 'b) \<Rightarrow> error + 'b" where
  "and_then r f = (case r of Inl e \<Rightarrow> Inl e | Inr a \<Rightarrow> f a)"

definition getitem :: "npfloat list \<Rightarrow> int \<Rightarrow> error + npfloat" where
  "getitem x i = and_then (np_index (length x) i) (\<lambda>k. Inr (x ! k))"

text \<open>A two-dimensional array is the list of its rows. \<^verbatim>\<open>M[i, j]\<close> reads and
  \<^verbatim>\<open>M[i, j] = a\<close> writes one cell.\<close>

definition getitem2 :: "npfloat list list \<Rightarrow> int \<Rightarrow> int \<Rightarrow> error + npfloat" where
  "getitem2 M i j =
     and_then (np_index (length M) i) (\<lambda>r.
     and_then (np_index (length (M ! r)) j) (\<lambda>c. Inr (M ! r ! c)))"

definition setitem2 :: "npfloat list list \<Rightarrow> int \<Rightarrow> int \<Rightarrow> npfloat \<Rightarrow> error + npfloat list list" where
  "setitem2 M i j a =
     and_then (np_index (length M) i) (\<lambda>r.
     and_then (np_index (length (M ! r)) j) (\<lambda>c. Inr (M[r := (M ! r)[c := a]])))"

text \<open>\<^verbatim>\<open>np.zeros((r, c))\<close>.\<close>

definition np_zeros :: "nat \<Rightarrow> nat \<Rightarrow> npfloat list list" where
  "np_zeros r c = replicate r (replicate c (Finite 0))"

text \<open>A \<^verbatim>\<open>for\<close> loop over a list of indices, threading the state; an exception in the
  body ends the loop.\<close>

primrec for_each :: "'i list \<Rightarrow> ('i \<Rightarrow> 's \<Rightarrow> error + 's) \<Rightarrow> 's \<Rightarrow> error + 's" where
  "for_each [] body s = Inr s"
| "for_each (i # is) body s = and_then (body i s) (for_each is body)"

text \<open>A slice \<^verbatim>\<open>x[a:b]\<close> with \<open>0 \<le> a\<close>, as the callers of the module cut windows.\<close>

definition slice :: "'a list \<Rightarrow> nat \<Rightarrow> nat \<Rightarrow> 'a list" where
  "slice x a b = take (b - a) (drop a x)"

section \<open>The functions of the module\<close>

definition z_norm :: "rounding \<Rightarrow> npfloat list \<Rightarrow> npfloat list" where
  "z_norm rnd x =
     (let mu_x = np_mean rnd x;
          sigma_x = np_std rnd x
      in map (\<lambda>a. np_div rnd (np_sub rnd a mu_x) sigma_x) x)"

definition norm_euclidean_distance ::
  "rounding \<Rightarrow> npfloat list \<Rightarrow> npfloat list \<Rightarrow> error + npfloat" where
  "norm_euclidean_distance rnd x y =
     and_then (np_broadcast (np_sub rnd) x y) (\<lambda>d.
       Inr (np_mul rnd (np_div rnd (Finite 1) (np_sqrt rnd (rnd (real (length x)))))
                       (np_linalg_norm rnd d)))"

definition pearson :: "rounding \<Rightarrow> npfloat list \<Rightarrow> npfloat list \<Rightarrow> error + npfloat" where
  "pearson rnd x y =
     (let mu_x = np_mean rnd x;
          sigma_x = np_std rnd x;
          mu_y = np_mean rnd y;
          sigma_y = np_std rnd y;
          m = rnd (real (length x))
      in and_then (np_broadcast (np_mul rnd) x y) (\<lambda>xy.
           Inr (np_div rnd (np_sub rnd (np_sum rnd xy) (np_mul rnd (np_mul rnd m mu_x) mu_y))
                           (np_mul rnd (np_mul rnd m sigma_x) sigma_y))))"

definition pearson_metrics ::
  "rounding \<Rightarrow> int \<Rightarrow> int \<Rightarrow> int \<Rightarrow> npfloat list \<Rightarrow> npfloat list \<Rightarrow> npfloat list \<Rightarrow>
   npfloat list \<Rightarrow> npfloat list list \<Rightarrow> error + npfloat" where
  "pearson_metrics rnd u v l S_x S_x2 S_y S_y2 M =
     and_then (getitem S_x (u + l)) (\<lambda>sx1.
     and_then (getitem S_x u) (\<lambda>sx0.
     and_then (getitem S_y (v + l)) (\<lambda>sy1.
     and_then (getitem S_y v) (\<lambda>sy0.
     and_then (getitem S_x2 (u + l)) (\<lambda>sxx1.
     and_then (getitem S_x2 u) (\<lambda>sxx0.
     and_then (getitem S_y2 (v + l)) (\<lambda>syy1.
     and_then (getitem S_y2 v) (\<lambda>syy0.
     and_then (getitem2 M (u + l) (v + l)) (\<lambda>m1.
     and_then (getitem2 M u v) (\<lambda>m0.
       (let len = rnd (real_of_int l);
            mu_x = np_div rnd (np_sub rnd sx1 sx0) len;
            mu_y = np_div rnd (np_sub rnd sy1 sy0) len;
            sigma_x = np_sqrt rnd (np_sub rnd (np_div rnd (np_sub rnd sxx1 sxx0) len)
                                             (np_square rnd mu_x));
            sigma_y = np_sqrt rnd (np_sub rnd (np_div rnd (np_sub rnd syy1 syy0) len)
                                             (np_square rnd mu_y));
            xy = np_sub rnd m1 m0
        in Inr (np_div rnd (np_sub rnd xy (np_mul rnd (np_mul rnd len mu_x) mu_y))
                           (np_mul rnd (np_mul rnd len sigma_x) sigma_y)))))))))))))"

text \<open>The body of the nested loop that fills \<open>M\<close>, with the branch on \<open>u > v\<close> as the
  source has it.\<close>

definition M_body ::
  "rounding \<Rightarrow> npfloat list \<Rightarrow> npfloat list \<Rightarrow> nat \<Rightarrow> nat \<Rightarrow> npfloat list list \<Rightarrow>
   error + npfloat list list" where
  "M_body rnd x y u v M =
     (let t = \<bar>int u - int v\<bar> in
      if u > v then
        and_then (getitem2 M (int u) (int v)) (\<lambda>m0.
        and_then (getitem x (int v + t)) (\<lambda>a.
        and_then (getitem y (int v)) (\<lambda>b.
          setitem2 M (int u + 1) (int v + 1) (np_add rnd m0 (np_mul rnd a b)))))
      else
        and_then (getitem2 M (int u) (int v)) (\<lambda>m0.
        and_then (getitem x (int u)) (\<lambda>a.
        and_then (getitem y (int u + t)) (\<lambda>b.
          setitem2 M (int u + 1) (int v + 1) (np_add rnd m0 (np_mul rnd a b))))))"

definition calculate_metric_arrays ::
  "rounding \<Rightarrow> npfloat list \<Rightarrow> npfloat list \<Rightarrow>
   error + (npfloat list \<times> npfloat list \<times> npfloat list \<times> npfloat list \<times> npfloat list list)" where
  "calculate_metric_arrays rnd x y =
     (let S_x = Finite 0 # np_cumsum rnd x;
          S_x2 = Finite 0 # np_cumsum rnd (map (np_square rnd) x);
          S_y = Finite 0 # np_cumsum rnd y;
          S_y2 = Finite 0 # np_cumsum rnd (map (np_square rnd) y);
          M0 = np_zeros (length x + 1) (length y + 1)
      in and_then
           (for_each [0..<length x]
              (\<lambda>u. for_each [0..<length y] (\<lambda>v. M_body rnd x y u v)) M0)
           (\<lambda>M. Inr (S_x, S_x2, S_y, S_y2, M)))"

definition pearson_dist :: "rounding \<Rightarrow> npfloat list \<Rightarrow> npfloat list \<Rightarrow> error + npfloat" where
  "pearson_dist rnd x y =
     and_then (pearson rnd x y)
       (\<lambda>r. Inr (np_sqrt rnd (np_mul rnd (Finite 2) (np_sub rnd (Finite 1) r))))"

definition pearson_dist_metrics ::
  "rounding \<Rightarrow> int \<Rightarrow> int \<Rightarrow> int \<Rightarrow> npfloat list \<Rightarrow> npfloat list \<Rightarrow> npfloat list \<Rightarrow>
   npfloat list \<Rightarrow> npfloat list list \<Rightarrow> error + npfloat" where
  "pearson_dist_metrics rnd u v l S_x S_x2 S_y S_y2 M =
     and_then (pearson_metrics rnd u v l S_x S_x2 S_y S_y2 M)
       (\<lambda>r. Inr (np_sqrt rnd (np_mul rnd (Finite 2) (np_sub rnd (Finite 1) r))))"

section \<open>Definitions for the specification and the proofs\<close>

text \<open>The specification's side, on lists of reals: the arithmetic mean, the population
  standard deviation, the sum of the products of two sequences, and the correlation as the
  specification writes it, \<open>(sum (x * y) - m * mean x * mean y) / (m * stddev x * stddev y)\<close>.\<close>

definition mean :: "real list \<Rightarrow> real" where
  "mean xs = sum_list xs / real (length xs)"

definition stddev :: "real list \<Rightarrow> real" where
  "stddev xs = sqrt ((\<Sum>a\<leftarrow>xs. (a - mean xs)\<^sup>2) / real (length xs))"

definition dot :: "real list \<Rightarrow> real list \<Rightarrow> real" where
  "dot xs ys = (\<Sum>(a, b)\<leftarrow>zip xs ys. a * b)"

definition corr :: "real list \<Rightarrow> real list \<Rightarrow> real" where
  "corr xs ys =
     (dot xs ys - real (length xs) * mean xs * mean ys) /
     (real (length xs) * stddev xs * stddev ys)"

text \<open>A sequence is non-constant when two of its elements differ.\<close>

definition non_constant :: "real list \<Rightarrow> bool" where
  "non_constant xs = (\<exists>a\<in>set xs. \<exists>b\<in>set xs. a \<noteq> b)"

text \<open>The z-normalisation as the specification writes it: \<open>(x - mean x) / stddev x\<close>,
  element by element.\<close>

definition z_scores :: "real list \<Rightarrow> real list" where
  "z_scores xs = map (\<lambda>a. (a - mean xs) / stddev xs) xs"

text \<open>The cell \<open>(i, j)\<close> of the matrix that the loop of \<open>calculate_metric_arrays\<close> is
  shown to build: zero in row 0 and column 0, and one more product along each diagonal.\<close>

fun M_cell :: "rounding \<Rightarrow> npfloat list \<Rightarrow> npfloat list \<Rightarrow> nat \<Rightarrow> nat \<Rightarrow> npfloat" where
  "M_cell rnd x y 0 j = Finite 0"
| "M_cell rnd x y (Suc i) 0 = Finite 0"
| "M_cell rnd x y (Suc i) (Suc j) = np_add rnd (M_cell rnd x y i j) (np_mul rnd (x ! i) (y ! j))"

text \<open>The matrix after the outer loop has run for \<open>u = 0, ..., k - 1\<close>: rows \<open>0\<close> to \<open>k\<close>
  are final, the rows below are still zero.\<close>

definition M_rows :: "rounding \<Rightarrow> npfloat list \<Rightarrow> npfloat list \<Rightarrow> nat \<Rightarrow> npfloat list list" where
  "M_rows rnd x y k =
     map (\<lambda>i. if i \<le> k then map (M_cell rnd x y i) [0..<Suc (length y)]
               else replicate (Suc (length y)) (Finite 0))
       [0..<Suc (length x)]"

text \<open>Row \<open>u + 1\<close> after the inner loop has run for \<open>v = 0, ..., k - 1\<close> on the matrix
  \<open>M\<close>.\<close>

definition row_after ::
  "rounding \<Rightarrow> npfloat list \<Rightarrow> npfloat list \<Rightarrow> nat \<Rightarrow> npfloat list list \<Rightarrow> nat \<Rightarrow> npfloat list" where
  "row_after rnd x y u M k =
     map (\<lambda>j. if 0 < j \<and> j \<le> k then np_add rnd (M ! u ! (j - 1)) (np_mul rnd (x ! u) (y ! (j - 1)))
               else M ! Suc u ! j)
       [0..<Suc (length y)]"

text \<open>A list of \<open>r\<close> rows of length \<open>c\<close> each.\<close>

definition has_shape :: "'a list list \<Rightarrow> nat \<Rightarrow> nat \<Rightarrow> bool" where
  "has_shape M r c = (length M = r \<and> (\<forall>i<r. length (M ! i) = c))"

text \<open>The finished matrix.\<close>

definition M_final :: "rounding \<Rightarrow> npfloat list \<Rightarrow> npfloat list \<Rightarrow> npfloat list list" where
  "M_final rnd x y = map (\<lambda>i. map (M_cell rnd x y i) [0..<Suc (length y)]) [0..<Suc (length x)]"

text \<open>A call has not failed when it returns a finite number: no exception, and neither
  NaN nor +/-Inf.\<close>

definition finite_result :: "error + npfloat \<Rightarrow> bool" where
  "finite_result r = (case r of Inr (Finite a) \<Rightarrow> True | _ \<Rightarrow> False)"

text \<open>A number that is neither NaN nor an infinity.\<close>

fun is_finite :: "npfloat \<Rightarrow> bool" where
  "is_finite (Finite a) = True"
| "is_finite _ = False"

section \<open>Rounding to float64\<close>

lemma pow2_pos: "0 < pow2 e"
  by (simp add: pow2_def)

lemma pow2_nonneg_exp: "0 \<le> e \<Longrightarrow> pow2 e = 2 ^ nat e"
  by (simp add: pow2_def)

lemma pow2_neg_exp: "e < 0 \<Longrightarrow> pow2 e = 1 / 2 ^ nat (- e)"
  by (simp add: pow2_def)

lemma exponent_eqI:
  assumes lo: "pow2 e \<le> \<bar>x\<bar>" and hi: "\<bar>x\<bar> < pow2 (e + 1)"
  shows "exponent x = e"
proof (cases "0 \<le> e")
  case True
  have "(1::real) \<le> 2 ^ nat e" by simp
  moreover have "2 ^ nat e \<le> \<bar>x\<bar>" using lo True by (simp add: pow2_nonneg_exp)
  ultimately have x1: "1 \<le> \<bar>x\<bar>" by linarith
  let ?k = "\<lfloor>\<bar>x\<bar>\<rfloor>"
  have "real_of_int (2 ^ nat e) \<le> \<bar>x\<bar>" using lo True by (simp add: pow2_nonneg_exp)
  then have klo: "2 ^ nat e \<le> ?k" by (simp only: le_floor_iff)
  have "\<bar>x\<bar> < real_of_int (2 ^ nat (e + 1))" using hi True by (simp add: pow2_nonneg_exp)
  then have khi: "?k < 2 ^ nat (e + 1)" by (simp only: floor_less_iff)
  have "bitlen ?k \<le> e + 1"
    using khi True by (simp add: bitlen_le_iff_power)
  moreover have "e + 1 \<le> bitlen ?k"
  proof -
    have "nat (e + 1) - 1 = nat e" using True by simp
    with klo show ?thesis by (simp add: bitlen_ge_iff_power)
  qed
  ultimately have "bitlen ?k = e + 1" by simp
  with x1 show ?thesis by (simp add: exponent_def)
next
  case False
  then have neg: "e < 0" by simp
  have p1: "pow2 (e + 1) \<le> 1"
    using neg by (cases "e + 1 = 0") (simp_all add: pow2_def)
  with hi have x1: "\<not> 1 \<le> \<bar>x\<bar>" by simp
  have xpos: "0 < \<bar>x\<bar>" using lo pow2_pos[of e] by linarith
  let ?y = "1 / \<bar>x\<bar>"
  let ?c = "\<lceil>?y\<rceil>"
  have "?y \<le> 1 / pow2 e"
    using lo pow2_pos[of e] by (intro divide_left_mono) (auto intro: mult_pos_pos xpos)
  then have "?y \<le> real_of_int (2 ^ nat (- e))"
    using neg by (simp add: pow2_neg_exp)
  then have chi: "?c \<le> 2 ^ nat (- e)" by (simp only: ceiling_le_iff)
  have inv: "1 / pow2 (e + 1) = 2 ^ nat (- e - 1)"
    using neg by (cases "e + 1 = 0") (simp_all add: pow2_def)
  have "1 / pow2 (e + 1) < ?y"
    using hi xpos by (intro divide_strict_left_mono) (auto intro: mult_pos_pos pow2_pos)
  then have "real_of_int (2 ^ nat (- e - 1)) < ?y" by (simp add: inv)
  then have clo: "2 ^ nat (- e - 1) < ?c" by (simp only: less_ceiling_iff)
  have "bitlen (?c - 1) \<le> - e"
    using chi neg by (simp add: bitlen_le_iff_power)
  moreover have "- e \<le> bitlen (?c - 1)"
  proof -
    have "nat (- e) - 1 = nat (- e - 1)" using neg by simp
    with clo show ?thesis by (simp add: bitlen_ge_iff_power)
  qed
  ultimately have "bitlen (?c - 1) = - e" by simp
  with x1 show ?thesis by (simp add: exponent_def)
qed

lemma float64_eqI:
  assumes "- 1022 \<le> e" and "pow2 e \<le> \<bar>x\<bar>" and "\<bar>x\<bar> < pow2 (e + 1)"
    and "round_half_even (x / pow2 (e - 52)) = n"
    and "\<bar>of_int n * pow2 (e - 52)\<bar> < 2 ^ 1024"
  shows "float64 x = Finite (of_int n * pow2 (e - 52))"
proof -
  have "x \<noteq> 0" using assms(2) pow2_pos[of e] by auto
  moreover have "max (exponent x) (- 1022) = e"
    using exponent_eqI[OF assms(2,3)] assms(1) by simp
  ultimately show ?thesis
    using assms(4,5) by (simp add: float64_def Let_def)
qed

lemma float64_zero [simp]: "float64 0 = Finite 0"
  by (simp add: float64_def)

lemma round_half_even_eqI:
  assumes "of_int n - 1 / 2 < y" and "y < of_int n + 1 / 2"
  shows "round_half_even y = n"
proof (cases "of_int n \<le> y")
  case True
  then have "\<lfloor>y\<rfloor> = n" using assms(2) by linarith
  then show ?thesis using assms(2) by (simp add: round_half_even_def Let_def)
next
  case False
  then have "\<lfloor>y\<rfloor> = n - 1" using assms(1) by linarith
  then show ?thesis using assms(1) by (simp add: round_half_even_def Let_def)
qed

section \<open>The roundings of the float64 runs below\<close>

text \<open>Each lemma rounds one exact result that occurs in the float64 runs of the module
  below; most say that a number is a double.\<close>

lemma float64_r01: "float64 (1 / 5192296858534827628530496329220096) = Finite (1 / 5192296858534827628530496329220096)"
  using float64_eqI[of "- 112" "1 / 5192296858534827628530496329220096" "4503599627370496"]
  by (simp add: pow2_def round_half_even_def)

lemma float64_r02: "float64 (1 / 2596148429267413814265248164610048) = Finite (1 / 2596148429267413814265248164610048)"
  using float64_eqI[of "- 111" "1 / 2596148429267413814265248164610048" "4503599627370496"]
  by (simp add: pow2_def round_half_even_def)

lemma float64_r03: "float64 (3 / 5192296858534827628530496329220096) = Finite (3 / 5192296858534827628530496329220096)"
  using float64_eqI[of "- 111" "3 / 5192296858534827628530496329220096" "6755399441055744"]
  by (simp add: pow2_def round_half_even_def)

lemma float64_r04: "float64 (- (1 / 72057594037927936)) = Finite (- (1 / 72057594037927936))"
  using float64_eqI[of "- 56" "- (1 / 72057594037927936)" "- 4503599627370496"]
  by (simp add: pow2_def round_half_even_def)

lemma float64_r05: "float64 (1 / 72057594037927936) = Finite (1 / 72057594037927936)"
  using float64_eqI[of "- 56" "1 / 72057594037927936" "4503599627370496"]
  by (simp add: pow2_def round_half_even_def)

lemma float64_r06: "float64 (3602879701896397 / 36028797018963968) = Finite (3602879701896397 / 36028797018963968)"
  using float64_eqI[of "- 4" "3602879701896397 / 36028797018963968" "7205759403792794"]
  by (simp add: pow2_def round_half_even_def)

lemma float64_r07: "float64 (1351079888211149 / 13510798882111488) = Finite (7205759403792795 / 72057594037927936)"
  using float64_eqI[of "- 4" "1351079888211149 / 13510798882111488" "7205759403792795"]
  by (simp add: pow2_def round_half_even_def)

lemma float64_r08: "float64 (3602879701896397 / 18014398509481984) = Finite (3602879701896397 / 18014398509481984)"
  using float64_eqI[of "- 3" "3602879701896397 / 18014398509481984" "7205759403792794"]
  by (simp add: pow2_def round_half_even_def)

lemma float64_r09: "float64 (- (1 / 4)) = Finite (- (1 / 4))"
  using float64_eqI[of "- 2" "- (1 / 4)" "- 4503599627370496"]
  by (simp add: pow2_def round_half_even_def)

lemma float64_r10: "float64 (1 / 4) = Finite (1 / 4)"
  using float64_eqI[of "- 2" "1 / 4" "4503599627370496"]
  by (simp add: pow2_def round_half_even_def)

lemma float64_r11: "float64 (10808639105689191 / 36028797018963968) = Finite (1351079888211149 / 4503599627370496)"
  using float64_eqI[of "- 2" "10808639105689191 / 36028797018963968" "5404319552844596"]
  by (simp add: pow2_def round_half_even_def)

lemma float64_r12: "float64 (2251799813685248 / 7120816245988179) = Finite (5696652996790543 / 18014398509481984)"
  using float64_eqI[of "- 2" "2251799813685248 / 7120816245988179" "5696652996790543"]
  by (simp add: pow2_def round_half_even_def)

lemma float64_r13: "float64 (- (1 / 2)) = Finite (- (1 / 2))"
  using float64_eqI[of "- 1" "- (1 / 2)" "- 4503599627370496"]
  by (simp add: pow2_def round_half_even_def)

lemma float64_r14: "float64 (1 / 2) = Finite (1 / 2)"
  using float64_eqI[of "- 1" "1 / 2" "4503599627370496"]
  by (simp add: pow2_def round_half_even_def)

lemma float64_r15: "float64 (- 1) = Finite (- 1)"
  using float64_eqI[of "0" "- 1" "- 4503599627370496"]
  by (simp add: pow2_def round_half_even_def)

lemma float64_r16: "float64 (1) = Finite (1)"
  using float64_eqI[of "0" "1" "4503599627370496"]
  by (simp add: pow2_def round_half_even_def)

lemma float64_r17: "float64 (40564819207303344318486516991197 / 40564819207303340847894502572032) = Finite (1)"
  using float64_eqI[of "0" "40564819207303344318486516991197 / 40564819207303340847894502572032" "4503599627370496"]
  by (simp add: pow2_def round_half_even_def)

lemma float64_r18: "float64 (3 / 2) = Finite (3 / 2)"
  using float64_eqI[of "0" "3 / 2" "6755399441055744"]
  by (simp add: pow2_def round_half_even_def)

lemma float64_r19: "float64 (2) = Finite (2)"
  using float64_eqI[of "1" "2" "4503599627370496"]
  by (simp add: pow2_def round_half_even_def)

lemma float64_r20: "float64 (9 / 4) = Finite (9 / 4)"
  using float64_eqI[of "1" "9 / 4" "5066549580791808"]
  by (simp add: pow2_def round_half_even_def)

lemma float64_r21: "float64 (3) = Finite (3)"
  using float64_eqI[of "1" "3" "6755399441055744"]
  by (simp add: pow2_def round_half_even_def)

lemma float64_r22: "float64 (4) = Finite (4)"
  using float64_eqI[of "2" "4" "4503599627370496"]
  by (simp add: pow2_def round_half_even_def)

lemma float64_r23: "float64 (9 / 2) = Finite (9 / 2)"
  using float64_eqI[of "2" "9 / 2" "5066549580791808"]
  by (simp add: pow2_def round_half_even_def)

lemma float64_r24: "float64 (5) = Finite (5)"
  using float64_eqI[of "2" "5" "5629499534213120"]
  by (simp add: pow2_def round_half_even_def)

lemma float64_r25: "float64 (6) = Finite (6)"
  using float64_eqI[of "2" "6" "6755399441055744"]
  by (simp add: pow2_def round_half_even_def)

lemma float64_r26: "float64 (7) = Finite (7)"
  using float64_eqI[of "2" "7" "7881299347898368"]
  by (simp add: pow2_def round_half_even_def)

lemma float64_r27: "float64 (8) = Finite (8)"
  using float64_eqI[of "3" "8" "4503599627370496"]
  by (simp add: pow2_def round_half_even_def)

lemma float64_r28: "float64 (9) = Finite (9)"
  using float64_eqI[of "3" "9" "5066549580791808"]
  by (simp add: pow2_def round_half_even_def)

lemma float64_r29: "float64 (10) = Finite (10)"
  using float64_eqI[of "3" "10" "5629499534213120"]
  by (simp add: pow2_def round_half_even_def)

lemma float64_r30: "float64 (11) = Finite (11)"
  using float64_eqI[of "3" "11" "6192449487634432"]
  by (simp add: pow2_def round_half_even_def)

lemma float64_r31: "float64 (16) = Finite (16)"
  using float64_eqI[of "4" "16" "4503599627370496"]
  by (simp add: pow2_def round_half_even_def)

lemma float64_r32: "float64 (25) = Finite (25)"
  using float64_eqI[of "4" "25" "7036874417766400"]
  by (simp add: pow2_def round_half_even_def)

lemma float64_r33: "float64 (134217728) = Finite (134217728)"
  using float64_eqI[of "27" "134217728" "4503599627370496"]
  by (simp add: pow2_def round_half_even_def)

lemma float64_r34: "float64 (134217729) = Finite (134217729)"
  using float64_eqI[of "27" "134217729" "4503599660924928"]
  by (simp add: pow2_def round_half_even_def)

lemma float64_r35: "float64 (134217730) = Finite (134217730)"
  using float64_eqI[of "27" "134217730" "4503599694479360"]
  by (simp add: pow2_def round_half_even_def)

lemma float64_r36: "float64 (134217731) = Finite (134217731)"
  using float64_eqI[of "27" "134217731" "4503599728033792"]
  by (simp add: pow2_def round_half_even_def)

lemma float64_r37: "float64 (268435456) = Finite (268435456)"
  using float64_eqI[of "28" "268435456" "4503599627370496"]
  by (simp add: pow2_def round_half_even_def)

lemma float64_r38: "float64 (- 4503599627370495) = Finite (- 4503599627370495)"
  using float64_eqI[of "51" "- 4503599627370495" "- 9007199254740990"]
  by (simp add: pow2_def round_half_even_def)

lemma float64_r39: "float64 (4503599627370496) = Finite (4503599627370496)"
  using float64_eqI[of "52" "4503599627370496" "4503599627370496"]
  by (simp add: pow2_def round_half_even_def)

lemma float64_r40: "float64 (- 9007199254740990) = Finite (- 9007199254740990)"
  using float64_eqI[of "52" "- 9007199254740990" "- 9007199254740990"]
  by (simp add: pow2_def round_half_even_def)

lemma float64_r41: "float64 (9007199254740992) = Finite (9007199254740992)"
  using float64_eqI[of "53" "9007199254740992" "4503599627370496"]
  by (simp add: pow2_def round_half_even_def)

lemma float64_r42: "float64 (9007199254740993) = Finite (9007199254740992)"
  using float64_eqI[of "53" "9007199254740993" "4503599627370496"]
  by (simp add: pow2_def round_half_even_def)

lemma float64_r43: "float64 (9007199254740996) = Finite (9007199254740996)"
  using float64_eqI[of "53" "9007199254740996" "4503599627370498"]
  by (simp add: pow2_def round_half_even_def)

lemma float64_r44: "float64 (18014398509481984) = Finite (18014398509481984)"
  using float64_eqI[of "54" "18014398509481984" "4503599627370496"]
  by (simp add: pow2_def round_half_even_def)

lemma float64_r45: "float64 (18014398509481985) = Finite (18014398509481984)"
  using float64_eqI[of "54" "18014398509481985" "4503599627370496"]
  by (simp add: pow2_def round_half_even_def)

lemma float64_r46: "float64 (18014398509481988) = Finite (18014398509481988)"
  using float64_eqI[of "54" "18014398509481988" "4503599627370497"]
  by (simp add: pow2_def round_half_even_def)

lemma float64_r47: "float64 (27021597764222976) = Finite (27021597764222976)"
  using float64_eqI[of "54" "27021597764222976" "6755399441055744"]
  by (simp add: pow2_def round_half_even_def)

lemma float64_r48: "float64 (36028797018963968) = Finite (36028797018963968)"
  using float64_eqI[of "55" "36028797018963968" "4503599627370496"]
  by (simp add: pow2_def round_half_even_def)

lemma float64_r49: "float64 (36028797018963972) = Finite (36028797018963968)"
  using float64_eqI[of "55" "36028797018963972" "4503599627370496"]
  by (simp add: pow2_def round_half_even_def)

lemma float64_r50: "float64 (72057594037927936) = Finite (72057594037927936)"
  using float64_eqI[of "56" "72057594037927936" "4503599627370496"]
  by (simp add: pow2_def round_half_even_def)

lemma float64_r51: "float64 (81129638414606681695789005144064) = Finite (81129638414606681695789005144064)"
  using float64_eqI[of "106" "81129638414606681695789005144064" "4503599627370496"]
  by (simp add: pow2_def round_half_even_def)

lemma float64_r52: "float64 (81129638414606681695789005144065) = Finite (81129638414606681695789005144064)"
  using float64_eqI[of "106" "81129638414606681695789005144065" "4503599627370496"]
  by (simp add: pow2_def round_half_even_def)

lemma float64_r53: "float64 (81129638414606753753383043072016) = Finite (81129638414606753753383043072000)"
  using float64_eqI[of "106" "81129638414606753753383043072016" "4503599627370500"]
  by (simp add: pow2_def round_half_even_def)

lemma float64_r54: "float64 (162259276829213363391578010288128) = Finite (162259276829213363391578010288128)"
  using float64_eqI[of "107" "162259276829213363391578010288128" "4503599627370496"]
  by (simp add: pow2_def round_half_even_def)

lemma float64_r55: "float64 (243388915243820045087367015432192) = Finite (243388915243820045087367015432192)"
  using float64_eqI[of "107" "243388915243820045087367015432192" "6755399441055744"]
  by (simp add: pow2_def round_half_even_def)

lemma float64_r56: "float64 (324518553658426726783156020576256) = Finite (324518553658426726783156020576256)"
  using float64_eqI[of "108" "324518553658426726783156020576256" "4503599627370496"]
  by (simp add: pow2_def round_half_even_def)

lemma float64_r57: "float64 (324518553658426798840750058504192) = Finite (324518553658426798840750058504192)"
  using float64_eqI[of "108" "324518553658426798840750058504192" "4503599627370497"]
  by (simp add: pow2_def round_half_even_def)

lemmas float64_roundings =
  float64_r01 float64_r02 float64_r03 float64_r04 float64_r05 float64_r06
  float64_r07 float64_r08 float64_r09 float64_r10 float64_r11 float64_r12
  float64_r13 float64_r14 float64_r15 float64_r16 float64_r17 float64_r18
  float64_r19 float64_r20 float64_r21 float64_r22 float64_r23 float64_r24
  float64_r25 float64_r26 float64_r27 float64_r28 float64_r29 float64_r30
  float64_r31 float64_r32 float64_r33 float64_r34 float64_r35 float64_r36
  float64_r37 float64_r38 float64_r39 float64_r40 float64_r41 float64_r42
  float64_r43 float64_r44 float64_r45 float64_r46 float64_r47 float64_r48
  float64_r49 float64_r50 float64_r51 float64_r52 float64_r53 float64_r54
  float64_r55 float64_r56 float64_r57

lemma sqrt_r02: "sqrt (1 / 5192296858534827628530496329220096) = 1 / 72057594037927936"
  by (rule real_sqrt_unique) (simp_all add: power2_eq_square)

lemma sqrt_r03: "sqrt (1 / 4) = 1 / 2"
  by (rule real_sqrt_unique) (simp_all add: power2_eq_square)

lemma sqrt_r05: "sqrt (4) = 2"
  by (rule real_sqrt_unique) (simp_all add: power2_eq_square)

lemmas sqrt_roundings = sqrt_r02 sqrt_r03 sqrt_r05

section \<open>The numpy operations on finite numbers\<close>

lemma inf_of_simps [simp]: "inf_of True = MInf" "inf_of False = PInf"
  by (simp_all add: inf_of_def)

lemma foldl_np_add_Finite:
  "foldl (np_add exact) (Finite s) (map Finite xs) = Finite (s + sum_list xs)"
  by (induction xs arbitrary: s) (simp_all add: add.assoc)

lemma np_sum_Finite: "np_sum exact (map Finite xs) = Finite (sum_list xs)"
  by (simp add: np_sum_def foldl_np_add_Finite)

lemma np_mean_Finite:
  "np_mean exact (map Finite xs) = (if xs = [] then NaN else Finite (mean xs))"
  by (simp add: np_mean_def np_sum_Finite mean_def)

lemma map_sq_dev_Finite:
  "map (\<lambda>a. np_square exact (np_sub exact a (Finite c))) (map Finite xs) = map Finite (map (\<lambda>a. (a - c)\<^sup>2) xs)"
  by (simp add: np_square_def power2_eq_square)

lemma np_std_Finite:
  "np_std exact (map Finite xs) = (if xs = [] then NaN else Finite (stddev xs))"
proof (cases "xs = []")
  case True
  then show ?thesis by (simp add: np_std_def np_mean_def np_sum_def)
next
  case False
  have nonneg: "0 \<le> (\<Sum>a\<leftarrow>xs. (a - mean xs)\<^sup>2) / real (length xs)"
    by (intro divide_nonneg_nonneg sum_list_nonneg) auto
  have "np_std exact (map Finite xs)
        = np_sqrt exact (np_mean exact (map Finite (map (\<lambda>a. (a - mean xs)\<^sup>2) xs)))"
    using False unfolding np_std_def Let_def np_mean_Finite[of xs] by (simp only: map_sq_dev_Finite if_False)
  also have "\<dots> = np_sqrt exact (Finite ((\<Sum>a\<leftarrow>xs. (a - mean xs)\<^sup>2) / real (length xs)))"
    using False by (simp only: np_mean_Finite) (simp add: mean_def)
  also have "\<dots> = Finite (stddev xs)"
    using nonneg by (simp add: stddev_def)
  finally show ?thesis using False by simp
qed

lemma np_broadcast_same:
  "length xs = length ys \<Longrightarrow>
   np_broadcast f (map Finite xs) (map Finite ys) = Inr (map2 f (map Finite xs) (map Finite ys))"
  by (simp add: np_broadcast_def)

lemma map2_mul_Finite:
  "map2 (np_mul exact) (map Finite xs) (map Finite ys) = map Finite (map2 (*) xs ys)"
  by (induction xs arbitrary: ys) (auto simp: zip_Cons1 split: list.splits)

lemma map2_sub_Finite:
  "map2 (np_sub exact) (map Finite xs) (map Finite ys) = map Finite (map2 (-) xs ys)"
  by (induction xs arbitrary: ys) (auto simp: zip_Cons1 split: list.splits)

lemma dot_map2: "dot xs ys = sum_list (map2 (*) xs ys)"
  by (simp add: dot_def)

lemma stddev_nonneg: "0 \<le> stddev xs"
  unfolding stddev_def by (intro real_sqrt_ge_zero divide_nonneg_nonneg sum_list_nonneg) auto

section \<open>Sums, means and deviations\<close>

lemma sum_list_sub_const: "(\<Sum>a\<leftarrow>xs. a - c) = sum_list xs - real (length xs) * (c::real)"
  by (induction xs) (simp_all add: algebra_simps)

lemma sum_dev_zero: "xs \<noteq> [] \<Longrightarrow> (\<Sum>a\<leftarrow>xs. a - mean xs) = 0"
  by (simp add: sum_list_sub_const mean_def)

lemma sum_list_mean: "xs \<noteq> [] \<Longrightarrow> sum_list xs = real (length xs) * mean xs"
  by (simp add: mean_def)

lemma sum_cross:
  "length xs = length ys \<Longrightarrow>
   (\<Sum>(a, b)\<leftarrow>zip xs ys. (a - c) * (b - d)) =
   dot xs ys - d * sum_list xs - c * sum_list ys + real (length xs) * c * (d::real)"
  by (induction rule: list_induct2) (simp_all add: dot_def algebra_simps)

lemma cov_eq:
  assumes "length xs = length ys" "xs \<noteq> []"
  shows "(\<Sum>(a, b)\<leftarrow>zip xs ys. (a - mean xs) * (b - mean ys)) =
         dot xs ys - real (length xs) * mean xs * mean ys"
proof -
  from assms have "ys \<noteq> []" by auto
  then have sy: "sum_list ys = real (length xs) * mean ys"
    using assms by (simp add: mean_def)
  have sx: "sum_list xs = real (length xs) * mean xs"
    using assms(2) by (simp add: mean_def)
  show ?thesis
    unfolding sum_cross[OF assms(1)] sx sy by (simp add: algebra_simps)
qed

lemma sum_sq_sub_const:
  "(\<Sum>a\<leftarrow>xs. (a - c)\<^sup>2) = (\<Sum>a\<leftarrow>xs. a\<^sup>2) - 2 * c * sum_list xs + real (length xs) * (c::real)\<^sup>2"
  by (induction xs) (simp_all add: algebra_simps power2_eq_square)

lemma sq_dev_eq:
  assumes "xs \<noteq> []"
  shows "(\<Sum>a\<leftarrow>xs. (a - mean xs)\<^sup>2) = (\<Sum>a\<leftarrow>xs. a\<^sup>2) - real (length xs) * (mean xs)\<^sup>2"
  unfolding sum_sq_sub_const sum_list_mean[OF assms]
  by (simp add: algebra_simps power2_eq_square)

lemma sq_dev_nonneg: "0 \<le> (\<Sum>a\<leftarrow>xs. (a - (c::real))\<^sup>2)"
  by (intro sum_list_nonneg) auto

lemma stddev_sq:
  "xs \<noteq> [] \<Longrightarrow> real (length xs) * (stddev xs)\<^sup>2 = (\<Sum>a\<leftarrow>xs. (a - mean xs)\<^sup>2)"
  using sq_dev_nonneg[of "mean xs" xs] by (simp add: stddev_def)

lemma sq_dev_zero_iff: "(\<Sum>a\<leftarrow>xs. (a - (c::real))\<^sup>2) = 0 \<longleftrightarrow> (\<forall>a\<in>set xs. a = c)"
  by (subst sum_list_nonneg_eq_0_iff) auto

lemma stddev_zero_iff:
  "xs \<noteq> [] \<Longrightarrow> stddev xs = 0 \<longleftrightarrow> (\<forall>a\<in>set xs. a = mean xs)"
  by (simp add: stddev_def sq_dev_zero_iff)

lemma sum_list_all_zero: "(\<And>a. a \<in> set xs \<Longrightarrow> f a = (0::real)) \<Longrightarrow> sum_list (map f xs) = 0"
  by (induction xs) simp_all

lemma cov_zero:
  assumes "length xs = length ys" "xs \<noteq> []" "stddev xs = 0 \<or> stddev ys = 0"
  shows "dot xs ys - real (length xs) * mean xs * mean ys = 0"
proof -
  from assms have ys: "ys \<noteq> []" by auto
  have "(a - mean xs) * (b - mean ys) = 0" if "(a, b) \<in> set (zip xs ys)" for a b
  proof -
    from that have "a \<in> set xs" "b \<in> set ys"
      by (auto dest: set_zip_leftD set_zip_rightD)
    with assms(2,3) ys show ?thesis
      using stddev_zero_iff[of xs] stddev_zero_iff[of ys] by auto
  qed
  then have "(\<Sum>(a, b)\<leftarrow>zip xs ys. (a - mean xs) * (b - mean ys)) = 0"
    by (intro sum_list_all_zero) auto
  then show ?thesis by (simp only: cov_eq[OF assms(1,2)])
qed

lemma pearson_Finite:
  assumes "length xs = length ys"
  shows "pearson exact (map Finite xs) (map Finite ys) =
         Inr (if xs = [] \<or> stddev xs = 0 \<or> stddev ys = 0 then NaN
              else Finite (corr xs ys))"
proof (cases "xs = []")
  case True
  with assms show ?thesis
    by (simp add: pearson_def np_broadcast_def and_then_def np_mean_def np_std_def np_sum_def)
next
  case False
  with assms have ys: "ys \<noteq> []" by auto
  have lifted: "pearson exact (map Finite xs) (map Finite ys) =
      Inr (np_div exact (Finite (dot xs ys - real (length xs) * mean xs * mean ys))
                        (Finite (real (length xs) * stddev xs * stddev ys)))"
    using False ys assms
    by (simp add: pearson_def Let_def np_broadcast_same and_then_def np_mean_Finite np_std_Finite
        map2_mul_Finite np_sum_Finite dot_map2 del: map_map)
  show ?thesis
  proof (cases "stddev xs = 0 \<or> stddev ys = 0")
    case True
    then show ?thesis
      unfolding lifted using cov_zero[OF assms False True] by auto
  next
    case False
    with \<open>xs \<noteq> []\<close> show ?thesis
      unfolding lifted by (simp add: corr_def)
  qed
qed

lemma mean_constant:
  assumes "xs \<noteq> []" "\<forall>a\<in>set xs. a = c"
  shows "mean xs = c"
proof -
  from assms(2) have "sum_list xs = real (length xs) * c"
    by (induction xs) (simp_all add: algebra_simps)
  with assms(1) show ?thesis by (simp add: mean_def)
qed

lemma non_constant_iff: "non_constant xs \<longleftrightarrow> xs \<noteq> [] \<and> stddev xs \<noteq> 0"
proof
  assume nc: "non_constant xs"
  then have ne: "xs \<noteq> []" by (auto simp: non_constant_def)
  from nc have "\<not> (\<forall>a\<in>set xs. a = mean xs)" unfolding non_constant_def by metis
  with ne show "xs \<noteq> [] \<and> stddev xs \<noteq> 0" by (simp add: stddev_zero_iff)
next
  assume a: "xs \<noteq> [] \<and> stddev xs \<noteq> 0"
  show "non_constant xs"
  proof (rule ccontr)
    assume "\<not> non_constant xs"
    then have "\<forall>a\<in>set xs. a = hd xs" using a by (auto simp: non_constant_def)
    with a have "\<forall>a\<in>set xs. a = mean xs" using mean_constant[of xs "hd xs"] by simp
    with a show False using stddev_zero_iff[of xs] by blast
  qed
qed

section \<open>The z-normalisation and the bounds of the correlation\<close>

lemma length_z_scores: "length (z_scores xs) = length xs"
  by (simp add: z_scores_def)

lemma z_norm_Finite:
  "non_constant xs \<Longrightarrow> z_norm exact (map Finite xs) = map Finite (z_scores xs)"
  by (simp add: non_constant_iff z_norm_def np_mean_Finite np_std_Finite z_scores_def)

lemma z_norm_singular:
  assumes "stddev xs = 0"
  shows "z_norm exact (map Finite xs) = replicate (length xs) NaN"
proof (cases "xs = []")
  case True
  then show ?thesis by (simp add: z_norm_def)
next
  case False
  with assms have all: "\<forall>a\<in>set xs. a = mean xs" by (simp add: stddev_zero_iff)
  have "z_norm exact (map Finite xs) =
        map (\<lambda>a. np_div exact (np_sub exact (Finite a) (Finite (mean xs))) (Finite 0)) xs"
    using False assms by (simp add: z_norm_def np_mean_Finite np_std_Finite o_def)
  also have "\<dots> = map (\<lambda>a. NaN) xs"
    using all by (intro map_cong) auto
  finally show ?thesis by (simp add: map_replicate_const)
qed

lemma sum_list_divide_const: "(\<Sum>a\<leftarrow>xs. f a / c) = (\<Sum>a\<leftarrow>xs. f a) / (c::real)"
  by (induction xs) (simp_all add: add_divide_distrib)

lemma sum_z_scores: "xs \<noteq> [] \<Longrightarrow> sum_list (z_scores xs) = 0"
  by (simp add: z_scores_def o_def sum_list_divide_const sum_dev_zero)

lemma mean_z_scores: "xs \<noteq> [] \<Longrightarrow> mean (z_scores xs) = 0"
  by (simp add: mean_def sum_z_scores)

lemma sum_sq_z_scores:
  assumes "xs \<noteq> []" "stddev xs \<noteq> 0"
  shows "(\<Sum>z\<leftarrow>z_scores xs. z\<^sup>2) = real (length xs)"
proof -
  have "(\<Sum>z\<leftarrow>z_scores xs. z\<^sup>2) = (\<Sum>a\<leftarrow>xs. (a - mean xs)\<^sup>2 / (stddev xs)\<^sup>2)"
    by (simp add: z_scores_def o_def power_divide)
  also have "\<dots> = (\<Sum>a\<leftarrow>xs. (a - mean xs)\<^sup>2) / (stddev xs)\<^sup>2"
    by (rule sum_list_divide_const)
  also have "\<dots> = real (length xs) * (stddev xs)\<^sup>2 / (stddev xs)\<^sup>2"
    by (simp add: stddev_sq[OF assms(1)])
  also have "\<dots> = real (length xs)"
    using assms(2) by simp
  finally show ?thesis .
qed

lemma stddev_z_scores:
  assumes "xs \<noteq> []" "stddev xs \<noteq> 0"
  shows "stddev (z_scores xs) = 1"
proof -
  have "(\<Sum>z\<leftarrow>z_scores xs. (z - mean (z_scores xs))\<^sup>2) = real (length xs)"
    using assms by (simp add: mean_z_scores sum_sq_z_scores)
  then show ?thesis
    using assms(1) by (simp add: stddev_def[of "z_scores xs"] length_z_scores)
qed

lemma dot_z_scores:
  assumes "length xs = length ys" "xs \<noteq> []"
  shows "dot (z_scores xs) (z_scores ys) =
         (dot xs ys - real (length xs) * mean xs * mean ys) / (stddev xs * stddev ys)"
proof -
  have "dot (z_scores xs) (z_scores ys) =
        (\<Sum>(a, b)\<leftarrow>zip xs ys. (a - mean xs) * (b - mean ys) / (stddev xs * stddev ys))"
    by (simp add: dot_def z_scores_def zip_map_map o_def split_def)
  also have "\<dots> = (\<Sum>(a, b)\<leftarrow>zip xs ys. (a - mean xs) * (b - mean ys)) / (stddev xs * stddev ys)"
    using sum_list_divide_const[of "\<lambda>(a, b). (a - mean xs) * (b - mean ys)" _ "zip xs ys"]
    by (simp add: split_def)
  finally show ?thesis by (simp add: cov_eq[OF assms])
qed

lemma dot_z_scores_corr:
  assumes "length xs = length ys" "xs \<noteq> []"
  shows "dot (z_scores xs) (z_scores ys) = real (length xs) * corr xs ys"
  unfolding dot_z_scores[OF assms] corr_def using assms(2) by simp

lemma sum_sq_diff:
  "length xs = length ys \<Longrightarrow>
   (\<Sum>d\<leftarrow>map2 (-) xs ys. d\<^sup>2) = (\<Sum>a\<leftarrow>xs. a\<^sup>2) - 2 * dot xs ys + (\<Sum>b\<leftarrow>ys. (b::real)\<^sup>2)"
  by (induction rule: list_induct2) (simp_all add: dot_def algebra_simps power2_eq_square)

lemma sum_sq_sum:
  "length xs = length ys \<Longrightarrow>
   (\<Sum>d\<leftarrow>map2 (+) xs ys. d\<^sup>2) = (\<Sum>a\<leftarrow>xs. a\<^sup>2) + 2 * dot xs ys + (\<Sum>b\<leftarrow>ys. (b::real)\<^sup>2)"
  by (induction rule: list_induct2) (simp_all add: dot_def algebra_simps power2_eq_square)

lemma sum_sq_nonneg: "0 \<le> (\<Sum>d\<leftarrow>ds. (d::real)\<^sup>2)"
  by (intro sum_list_nonneg) auto

lemma z_diff_sq:
  assumes "length xs = length ys" "non_constant xs" "non_constant ys"
  shows "(\<Sum>d\<leftarrow>map2 (-) (z_scores xs) (z_scores ys). d\<^sup>2) =
         real (length xs) * (2 * (1 - corr xs ys))"
proof -
  from assms have ne: "xs \<noteq> []" "stddev xs \<noteq> 0" "ys \<noteq> []" "stddev ys \<noteq> 0"
    by (simp_all add: non_constant_iff)
  have len: "length (z_scores xs) = length (z_scores ys)"
    using assms(1) by (simp add: length_z_scores)
  have "(\<Sum>d\<leftarrow>map2 (-) (z_scores xs) (z_scores ys). d\<^sup>2) =
        real (length xs) - 2 * (real (length xs) * corr xs ys) + real (length ys)"
    unfolding sum_sq_diff[OF len] sum_sq_z_scores[OF ne(1,2)] sum_sq_z_scores[OF ne(3,4)]
      dot_z_scores_corr[OF assms(1) ne(1)] ..
  then show ?thesis using assms(1) by (simp add: algebra_simps)
qed

lemma z_sum_sq:
  assumes "length xs = length ys" "non_constant xs" "non_constant ys"
  shows "(\<Sum>d\<leftarrow>map2 (+) (z_scores xs) (z_scores ys). d\<^sup>2) =
         real (length xs) * (2 * (1 + corr xs ys))"
proof -
  from assms have ne: "xs \<noteq> []" "stddev xs \<noteq> 0" "ys \<noteq> []" "stddev ys \<noteq> 0"
    by (simp_all add: non_constant_iff)
  have len: "length (z_scores xs) = length (z_scores ys)"
    using assms(1) by (simp add: length_z_scores)
  have "(\<Sum>d\<leftarrow>map2 (+) (z_scores xs) (z_scores ys). d\<^sup>2) =
        real (length xs) + 2 * (real (length xs) * corr xs ys) + real (length ys)"
    unfolding sum_sq_sum[OF len] sum_sq_z_scores[OF ne(1,2)] sum_sq_z_scores[OF ne(3,4)]
      dot_z_scores_corr[OF assms(1) ne(1)] ..
  then show ?thesis using assms(1) by (simp add: algebra_simps)
qed

lemma corr_le_1:
  assumes "length xs = length ys" "non_constant xs" "non_constant ys"
  shows "corr xs ys \<le> 1"
proof -
  have "0 < real (length xs)" using assms(2) by (simp add: non_constant_iff)
  moreover have "0 \<le> real (length xs) * (2 * (1 - corr xs ys))"
    using sum_sq_nonneg[of "map2 (-) (z_scores xs) (z_scores ys)"] by (simp only: z_diff_sq[OF assms])
  ultimately have "0 \<le> 2 * (1 - corr xs ys)"
    by (simp add: zero_le_mult_iff)
  then show ?thesis by simp
qed

lemma corr_ge_m1:
  assumes "length xs = length ys" "non_constant xs" "non_constant ys"
  shows "- 1 \<le> corr xs ys"
proof -
  have "0 < real (length xs)" using assms(2) by (simp add: non_constant_iff)
  moreover have "0 \<le> real (length xs) * (2 * (1 + corr xs ys))"
    using sum_sq_nonneg[of "map2 (+) (z_scores xs) (z_scores ys)"] by (simp only: z_sum_sq[OF assms])
  ultimately have "0 \<le> 2 * (1 + corr xs ys)"
    by (simp add: zero_le_mult_iff)
  then show ?thesis by simp
qed

lemma np_linalg_norm_Finite:
  "np_linalg_norm exact (map Finite ds) = Finite (sqrt (\<Sum>d\<leftarrow>ds. d\<^sup>2))"
proof -
  have "map (np_square exact) (map Finite ds) = map Finite (map power2 ds)"
    by (simp add: np_square_def power2_eq_square)
  then have "np_linalg_norm exact (map Finite ds) = np_sqrt exact (Finite (\<Sum>d\<leftarrow>ds. d\<^sup>2))"
    unfolding np_linalg_norm_def by (simp only: np_sum_Finite)
  then show ?thesis using sum_sq_nonneg[of ds] by simp
qed

lemma and_then_Inr [simp]: "and_then (Inr a) f = f a"
  by (simp add: and_then_def)

lemma and_then_Inl [simp]: "and_then (Inl e) f = Inl e"
  by (simp add: and_then_def)

lemma norm_euclidean_distance_Finite:
  assumes "length xs = length ys"
  shows "norm_euclidean_distance exact (map Finite xs) (map Finite ys) =
         Inr (if xs = [] then NaN
              else Finite (1 / sqrt (real (length xs)) * sqrt (\<Sum>d\<leftarrow>map2 (-) xs ys. d\<^sup>2)))"
proof -
  have "norm_euclidean_distance exact (map Finite xs) (map Finite ys) =
        Inr (np_mul exact (np_div exact (Finite 1) (np_sqrt exact (Finite (real (length xs)))))
                    (Finite (sqrt (\<Sum>d\<leftarrow>map2 (-) xs ys. d\<^sup>2))))"
    unfolding norm_euclidean_distance_def np_broadcast_same[OF assms] and_then_Inr
      map2_sub_Finite np_linalg_norm_Finite length_map ..
  then show ?thesis by simp
qed

lemma ned_z_norm:
  assumes "length xs = length ys" "non_constant xs" "non_constant ys"
  shows "norm_euclidean_distance exact (z_norm exact (map Finite xs)) (z_norm exact (map Finite ys)) =
         Inr (Finite (sqrt (2 * (1 - corr xs ys))))"
proof -
  have ne: "xs \<noteq> []" using assms(2) by (simp add: non_constant_iff)
  then have zne: "z_scores xs \<noteq> []" by (simp add: z_scores_def)
  have len: "length (z_scores xs) = length (z_scores ys)"
    using assms(1) by (simp add: length_z_scores)
  have key: "1 / sqrt (real (length xs)) * sqrt (real (length xs) * (2 * (1 - corr xs ys))) =
        sqrt (2 * (1 - corr xs ys))"
    using ne by (simp add: real_sqrt_mult)
  have "norm_euclidean_distance exact (z_norm exact (map Finite xs)) (z_norm exact (map Finite ys)) =
        Inr (Finite (1 / sqrt (real (length xs)) * sqrt (real (length xs) * (2 * (1 - corr xs ys)))))"
    unfolding z_norm_Finite[OF assms(2)] z_norm_Finite[OF assms(3)]
      norm_euclidean_distance_Finite[OF len] z_diff_sq[OF assms] length_z_scores
    using zne by simp
  then show ?thesis unfolding key .
qed

lemma pearson_dist_Finite:
  assumes "length xs = length ys" "non_constant xs" "non_constant ys"
  shows "pearson_dist exact (map Finite xs) (map Finite ys) = Inr (Finite (sqrt (2 * (1 - corr xs ys))))"
  using assms corr_le_1[OF assms]
  by (simp add: pearson_dist_def pearson_Finite and_then_def non_constant_iff)

section \<open>The loop that fills M\<close>

lemma np_index_nat: "k < n \<Longrightarrow> np_index n (int k) = Inr k"
  by (simp add: np_index_def)

lemma getitem_nat: "k < length x \<Longrightarrow> getitem x (int k) = Inr (x ! k)"
  by (simp add: getitem_def np_index_nat)

lemma getitem2_nat:
  "i < length M \<Longrightarrow> j < length (M ! i) \<Longrightarrow> getitem2 M (int i) (int j) = Inr (M ! i ! j)"
  by (simp add: getitem2_def np_index_nat)

lemma setitem2_nat:
  "i < length M \<Longrightarrow> j < length (M ! i) \<Longrightarrow>
   setitem2 M (int i) (int j) a = Inr (M[i := (M ! i)[j := a]])"
  by (simp add: setitem2_def np_index_nat)

lemma M_body_step:
  assumes "u < length x" "v < length y" "has_shape M (Suc (length x)) (Suc (length y))"
  shows "M_body rnd x y u v M =
         Inr (M[Suc u := (M ! Suc u)[Suc v := np_add rnd (M ! u ! v) (np_mul rnd (x ! u) (y ! v))]])"
proof -
  have g: "getitem2 M (int u) (int v) = Inr (M ! u ! v)"
    using assms by (intro getitem2_nat) (auto simp: has_shape_def)
  have s: "setitem2 M (int u + 1) (int v + 1) a = Inr (M[Suc u := (M ! Suc u)[Suc v := a]])" for a
    using assms setitem2_nat[of "Suc u" M "Suc v" a] by (auto simp: has_shape_def add.commute)
  show ?thesis
  proof (cases "u > v")
    case True
    then have "int v + \<bar>int u - int v\<bar> = int u" by simp
    with True show ?thesis
      using assms(1,2) by (simp add: M_body_def g s getitem_nat)
  next
    case False
    then have "int u + \<bar>int u - int v\<bar> = int v" by simp
    with False show ?thesis
      using assms(1,2) by (simp add: M_body_def g s getitem_nat)
  qed
qed

lemma and_then_assoc: "and_then (and_then r f) g = and_then r (\<lambda>a. and_then (f a) g)"
  by (cases r) simp_all

lemma for_each_append:
  "for_each (as @ bs) body s = and_then (for_each as body s) (for_each bs body)"
proof (induction as arbitrary: s)
  case Nil
  show ?case by simp
next
  case (Cons a as)
  have "for_each (as @ bs) body = (\<lambda>t. and_then (for_each as body t) (for_each bs body))"
    by (rule ext) (rule Cons.IH)
  then show ?case by (simp add: and_then_assoc)
qed

lemma for_each_upt_Suc:
  "for_each [0..<Suc k] body s = and_then (for_each [0..<k] body s) (body k)"
proof -
  have "for_each [k] body t = body k t" for t
    by (cases "body k t") simp_all
  then have "for_each [k] body = body k" by (rule ext)
  then show ?thesis by (simp add: for_each_append)
qed

lemma has_shape_update:
  "has_shape M r c \<Longrightarrow> length row = c \<Longrightarrow> has_shape (M[i := row]) r c"
  by (cases "i < length M") (auto simp: has_shape_def nth_list_update)

lemma length_row_after: "length (row_after rnd x y u M k) = Suc (length y)"
  by (simp add: row_after_def)

lemma row_after_0:
  assumes "has_shape M (Suc (length x)) (Suc (length y))" "u < length x"
  shows "row_after rnd x y u M 0 = M ! Suc u"
  using assms by (intro nth_equalityI) (auto simp: row_after_def has_shape_def simp del: upt_Suc)

lemma row_after_Suc:
  assumes "k < length y"
  shows "(row_after rnd x y u M k)[Suc k := np_add rnd (M ! u ! k) (np_mul rnd (x ! u) (y ! k))] =
         row_after rnd x y u M (Suc k)"
proof (rule nth_equalityI)
  show "length ((row_after rnd x y u M k)[Suc k := np_add rnd (M ! u ! k) (np_mul rnd (x ! u) (y ! k))]) =
        length (row_after rnd x y u M (Suc k))"
    by (simp add: length_row_after)
next
  fix j
  assume "j < length ((row_after rnd x y u M k)[Suc k := np_add rnd (M ! u ! k) (np_mul rnd (x ! u) (y ! k))])"
  then have j: "j < Suc (length y)" by (simp add: length_row_after)
  show "(row_after rnd x y u M k)[Suc k := np_add rnd (M ! u ! k) (np_mul rnd (x ! u) (y ! k))] ! j =
        row_after rnd x y u M (Suc k) ! j"
  proof (cases "j = Suc k")
    case True
    with j show ?thesis by (simp add: length_row_after) (simp add: row_after_def del: upt_Suc)
  next
    case False
    with j show ?thesis by (auto simp: row_after_def simp del: upt_Suc)
  qed
qed

lemma inner_loop:
  assumes "u < length x" "has_shape M (Suc (length x)) (Suc (length y))" "k \<le> length y"
  shows "for_each [0..<k] (M_body rnd x y u) M = Inr (M[Suc u := row_after rnd x y u M k])"
  using assms(3)
proof (induction k)
  case 0
  have "M[Suc u := M ! Suc u] = M" by simp
  then show ?case by (simp add: row_after_0[OF assms(2,1)])
next
  case (Suc k)
  let ?M' = "M[Suc u := row_after rnd x y u M k]"
  have shape: "has_shape ?M' (Suc (length x)) (Suc (length y))"
    using assms(2) by (rule has_shape_update) (rule length_row_after)
  have k: "k < length y" using Suc.prems by simp
  have lenM: "Suc u < length M" using assms(1,2) by (simp add: has_shape_def)
  have "for_each [0..<Suc k] (M_body rnd x y u) M = M_body rnd x y u k ?M'"
    using Suc by (simp add: for_each_upt_Suc del: upt_Suc)
  also have "\<dots> = Inr (?M'[Suc u := (?M' ! Suc u)[Suc k := np_add rnd (?M' ! u ! k) (np_mul rnd (x ! u) (y ! k))]])"
    by (rule M_body_step[OF assms(1) k shape])
  also have "\<dots> = Inr (M[Suc u := row_after rnd x y u M (Suc k)])"
    using lenM by (simp add: row_after_Suc[OF k])
  finally show ?case .
qed

lemma has_shape_M_rows: "has_shape (M_rows rnd x y k) (Suc (length x)) (Suc (length y))"
  by (auto simp: has_shape_def M_rows_def simp del: upt_Suc)

lemma M_rows_0: "M_rows rnd x y 0 = np_zeros (length x + 1) (length y + 1)"
proof -
  have "M_cell rnd x y 0 = (\<lambda>j. Finite 0)" by (rule ext) simp
  then have "map (M_cell rnd x y 0) [0..<Suc (length y)] = replicate (Suc (length y)) (Finite 0)"
    by (simp add: map_replicate_const del: upt_Suc replicate_Suc)
  then have "M_rows rnd x y 0 = map (\<lambda>i. replicate (Suc (length y)) (Finite 0)) [0..<Suc (length x)]"
    unfolding M_rows_def by (intro map_cong) auto
  then show ?thesis
    by (simp add: np_zeros_def map_replicate_const del: upt_Suc replicate_Suc)
qed

lemma M_rows_nth:
  "i \<le> length x \<Longrightarrow> M_rows rnd x y k ! i =
     (if i \<le> k then map (M_cell rnd x y i) [0..<Suc (length y)]
      else replicate (Suc (length y)) (Finite 0))"
  unfolding M_rows_def by (subst nth_map) (simp_all del: upt_Suc)

lemma row_after_M_rows:
  assumes "k < length x"
  shows "row_after rnd x y k (M_rows rnd x y k) (length y) = map (M_cell rnd x y (Suc k)) [0..<Suc (length y)]"
proof (rule nth_equalityI)
  show "length (row_after rnd x y k (M_rows rnd x y k) (length y)) =
        length (map (M_cell rnd x y (Suc k)) [0..<Suc (length y)])"
    by (simp add: length_row_after del: upt_Suc)
next
  fix j
  assume "j < length (row_after rnd x y k (M_rows rnd x y k) (length y))"
  then have j: "j < Suc (length y)" by (simp add: length_row_after)
  show "row_after rnd x y k (M_rows rnd x y k) (length y) ! j =
        map (M_cell rnd x y (Suc k)) [0..<Suc (length y)] ! j"
  proof (cases j)
    case 0
    with assms show ?thesis
      by (simp add: row_after_def M_rows_nth del: upt_Suc)
  next
    case (Suc j')
    with j assms show ?thesis
      by (simp add: row_after_def M_rows_nth del: upt_Suc)
  qed
qed

lemma M_rows_Suc:
  assumes "k < length x"
  shows "(M_rows rnd x y k)[Suc k := map (M_cell rnd x y (Suc k)) [0..<Suc (length y)]] = M_rows rnd x y (Suc k)"
proof (rule nth_equalityI)
  show "length ((M_rows rnd x y k)[Suc k := map (M_cell rnd x y (Suc k)) [0..<Suc (length y)]]) =
        length (M_rows rnd x y (Suc k))"
    by (simp add: M_rows_def del: upt_Suc)
next
  fix i
  assume "i < length ((M_rows rnd x y k)[Suc k := map (M_cell rnd x y (Suc k)) [0..<Suc (length y)]])"
  then have i: "i \<le> length x" by (simp add: M_rows_def del: upt_Suc)
  then have il: "i < length (M_rows rnd x y k)" by (simp add: M_rows_def del: upt_Suc)
  show "(M_rows rnd x y k)[Suc k := map (M_cell rnd x y (Suc k)) [0..<Suc (length y)]] ! i =
        M_rows rnd x y (Suc k) ! i"
  proof (cases "i = Suc k")
    case True
    with i il show ?thesis by (simp add: M_rows_nth del: upt_Suc)
  next
    case False
    with i il show ?thesis by (auto simp: M_rows_nth nth_list_update simp del: upt_Suc)
  qed
qed

lemma outer_loop:
  assumes "k \<le> length x"
  shows "for_each [0..<k] (\<lambda>u. for_each [0..<length y] (\<lambda>v. M_body rnd x y u v))
           (np_zeros (length x + 1) (length y + 1)) = Inr (M_rows rnd x y k)"
  using assms
proof (induction k)
  case 0
  show ?case by (simp add: M_rows_0)
next
  case (Suc k)
  then have k: "k < length x" by simp
  have "for_each [0..<Suc k] (\<lambda>u. for_each [0..<length y] (\<lambda>v. M_body rnd x y u v))
           (np_zeros (length x + 1) (length y + 1)) =
        for_each [0..<length y] (M_body rnd x y k) (M_rows rnd x y k)"
    using Suc by (simp add: for_each_upt_Suc del: upt_Suc)
  also have "\<dots> = Inr ((M_rows rnd x y k)[Suc k := row_after rnd x y k (M_rows rnd x y k) (length y)])"
    by (rule inner_loop[OF k has_shape_M_rows]) simp
  also have "\<dots> = Inr (M_rows rnd x y (Suc k))"
    by (simp only: row_after_M_rows[OF k] M_rows_Suc[OF k])
  finally show ?case .
qed

lemma M_rows_final: "M_rows rnd x y (length x) = M_final rnd x y"
  unfolding M_rows_def M_final_def by (intro map_cong) auto

lemma calculate_metric_arrays_eq:
  "calculate_metric_arrays rnd x y =
     Inr (Finite 0 # np_cumsum rnd x, Finite 0 # np_cumsum rnd (map (np_square rnd) x),
          Finite 0 # np_cumsum rnd y, Finite 0 # np_cumsum rnd (map (np_square rnd) y),
          M_final rnd x y)"
  unfolding calculate_metric_arrays_def Let_def outer_loop[OF order_refl] M_rows_final by simp

lemma M_final_nth:
  "i \<le> length x \<Longrightarrow> j \<le> length y \<Longrightarrow> M_final rnd x y ! i ! j = M_cell rnd x y i j"
  unfolding M_final_def by (simp del: upt_Suc)

section \<open>Windows of the matrix and of the prefix sums\<close>

lemma M_cell_Finite:
  "i \<le> length xs \<Longrightarrow> j \<le> length ys \<Longrightarrow>
   \<exists>c. M_cell exact (map Finite xs) (map Finite ys) i j = Finite c"
proof (induction exact "map Finite xs" "map Finite ys" i j rule: M_cell.induct)
  case (1 j)
  show ?case by simp
next
  case (2 i)
  show ?case by simp
next
  case (3 i j)
  then obtain c where "M_cell exact (map Finite xs) (map Finite ys) i j = Finite c" by auto
  with 3 show ?case by simp
qed

lemma M_cell_window:
  assumes "M_cell exact (map Finite xs) (map Finite ys) u v = Finite c"
  shows "u + l \<le> length xs \<Longrightarrow> v + l \<le> length ys \<Longrightarrow>
         M_cell exact (map Finite xs) (map Finite ys) (u + l) (v + l) =
         Finite (c + (\<Sum>i<l. xs ! (u + i) * ys ! (v + i)))"
proof (induction l)
  case 0
  show ?case using assms by simp
next
  case (Suc l)
  then show ?case by simp
qed

lemma M_cell_diff:
  assumes "u + l \<le> length xs" "v + l \<le> length ys"
  shows "np_sub exact (M_cell exact (map Finite xs) (map Finite ys) (u + l) (v + l))
                (M_cell exact (map Finite xs) (map Finite ys) u v) =
         Finite (\<Sum>i<l. xs ! (u + i) * ys ! (v + i))"
proof -
  obtain c where c: "M_cell exact (map Finite xs) (map Finite ys) u v = Finite c"
    using M_cell_Finite[of u xs v ys] assms by auto
  show ?thesis
    unfolding M_cell_window[OF c assms] c by simp
qed

lemma dot_window:
  assumes "u + l \<le> length xs" "v + l \<le> length ys"
  shows "dot (slice xs u (u + l)) (slice ys v (v + l)) = (\<Sum>i<l. xs ! (u + i) * ys ! (v + i))"
proof -
  have "dot (slice xs u (u + l)) (slice ys v (v + l)) =
        (\<Sum>i = 0..<l. map2 (*) (take l (drop u xs)) (take l (drop v ys)) ! i)"
    using assms by (simp add: dot_map2 slice_def sum_list_sum_nth)
  also have "\<dots> = (\<Sum>i = 0..<l. xs ! (u + i) * ys ! (v + i))"
    using assms by (intro sum.cong) auto
  finally show ?thesis by (simp add: lessThan_atLeast0)
qed

lemma cumsum_from_Finite:
  "k < length xs \<Longrightarrow>
   cumsum_from exact (Finite s) (map Finite xs) ! k = Finite (s + sum_list (take (Suc k) xs))"
proof (induction xs arbitrary: s k)
  case Nil
  then show ?case by simp
next
  case (Cons a xs)
  then show ?case by (cases k) (simp_all add: add.assoc)
qed

lemma length_cumsum_from: "length (cumsum_from rnd s x) = length x"
  by (induction x arbitrary: s) simp_all

lemma length_np_cumsum: "length (np_cumsum rnd x) = length x"
  by (cases x) (simp_all add: np_cumsum_def length_cumsum_from)

lemma np_cumsum_exact:
  "np_cumsum exact (map Finite xs) = cumsum_from exact (Finite 0) (map Finite xs)"
  by (cases xs) (simp_all add: np_cumsum_def)

lemma prefix_nth:
  "k \<le> length xs \<Longrightarrow> (Finite 0 # np_cumsum exact (map Finite xs)) ! k = Finite (sum_list (take k xs))"
  by (cases k) (simp_all add: np_cumsum_exact cumsum_from_Finite)

lemma prefix_diff:
  assumes "u + l \<le> length xs"
  shows "np_sub exact ((Finite 0 # np_cumsum exact (map Finite xs)) ! (u + l))
                ((Finite 0 # np_cumsum exact (map Finite xs)) ! u) =
         Finite (sum_list (slice xs u (u + l)))"
proof -
  have "take (u + l) xs = take u xs @ take l (drop u xs)" by (rule take_add)
  then show ?thesis
    using assms by (simp add: prefix_nth slice_def)
qed

lemma map_square_Finite: "map (np_square exact) (map Finite xs) = map Finite (map power2 xs)"
  by (simp add: np_square_def power2_eq_square)

lemma slice_map: "slice (map f xs) a b = map f (slice xs a b)"
  by (simp add: slice_def take_map drop_map)

lemma length_slice: "b \<le> length xs \<Longrightarrow> length (slice xs a b) = b - a"
  by (simp add: slice_def)

section \<open>The correlation from the statistic arrays\<close>

lemma window_mean:
  "ws \<noteq> [] \<Longrightarrow>
   np_div exact (Finite (sum_list ws)) (Finite (real (length ws))) = Finite (mean ws)"
  by (simp add: mean_def)

lemma window_std:
  assumes "ws \<noteq> []"
  shows "np_sqrt exact (np_sub exact (np_div exact (Finite (\<Sum>a\<leftarrow>ws. a\<^sup>2)) (Finite (real (length ws))))
                         (np_square exact (Finite (mean ws)))) = Finite (stddev ws)"
proof -
  have "(\<Sum>a\<leftarrow>ws. a\<^sup>2) / real (length ws) - (mean ws)\<^sup>2 =
        (\<Sum>a\<leftarrow>ws. (a - mean ws)\<^sup>2) / real (length ws)"
    using assms by (simp add: sq_dev_eq diff_divide_distrib)
  moreover have "0 \<le> (\<Sum>a\<leftarrow>ws. (a - mean ws)\<^sup>2) / real (length ws)"
    by (intro divide_nonneg_nonneg sq_dev_nonneg) simp
  ultimately show ?thesis
    using assms by (simp add: np_square_def power2_eq_square[symmetric] stddev_def)
qed

lemma length_prefix: "length (Finite 0 # np_cumsum rnd x) = Suc (length x)"
  by (simp add: length_np_cumsum)

lemma has_shape_M_final: "has_shape (M_final rnd x y) (Suc (length x)) (Suc (length y))"
  by (auto simp: has_shape_def M_final_def simp del: upt_Suc)

lemma getitem2_M_final:
  assumes "i \<le> length x" "j \<le> length y"
  shows "getitem2 (M_final rnd x y) (int i) (int j) = Inr (M_cell rnd x y i j)"
proof -
  have "i < length (M_final rnd x y)" "j < length (M_final rnd x y ! i)"
    using assms has_shape_M_final[of rnd x y] by (auto simp: has_shape_def)
  then show ?thesis by (simp add: getitem2_nat M_final_nth[OF assms])
qed

lemma getitem_prefix:
  "k \<le> length x \<Longrightarrow>
   getitem (Finite 0 # np_cumsum rnd x) (int k) = Inr ((Finite 0 # np_cumsum rnd x) ! k)"
  by (rule getitem_nat) (simp add: length_np_cumsum)

lemma pearson_metrics_window:
  fixes xs ys :: "real list"
  assumes "u + l \<le> length xs" "v + l \<le> length ys"
  defines "x \<equiv> map Finite xs" and "y \<equiv> map Finite ys"
  defines "wx \<equiv> slice xs u (u + l)" and "wy \<equiv> slice ys v (v + l)"
  shows "pearson_metrics exact (int u) (int v) (int l)
           (Finite 0 # np_cumsum exact x) (Finite 0 # np_cumsum exact (map (np_square exact) x))
           (Finite 0 # np_cumsum exact y) (Finite 0 # np_cumsum exact (map (np_square exact) y)) (M_final exact x y) =
         Inr (if wx = [] \<or> stddev wx = 0 \<or> stddev wy = 0 then NaN
              else Finite (corr wx wy))"
proof -
  have ul: "int u + int l = int (u + l)" and vl: "int v + int l = int (v + l)" by simp_all
  have bounds: "u + l \<le> length x" "u \<le> length x" "v + l \<le> length y" "v \<le> length y"
    "u + l \<le> length (map (np_square exact) x)" "u \<le> length (map (np_square exact) x)"
    "v + l \<le> length (map (np_square exact) y)" "v \<le> length (map (np_square exact) y)"
    using assms(1,2) by (simp_all add: x_def y_def)
  have lw: "length wx = l" "length wy = l"
    using assms(1,2) by (simp_all add: wx_def wy_def length_slice)
  have sx: "np_sub exact ((Finite 0 # np_cumsum exact x) ! (u + l)) ((Finite 0 # np_cumsum exact x) ! u) =
            Finite (sum_list wx)"
    unfolding x_def wx_def by (rule prefix_diff[OF assms(1)])
  have sy: "np_sub exact ((Finite 0 # np_cumsum exact y) ! (v + l)) ((Finite 0 # np_cumsum exact y) ! v) =
            Finite (sum_list wy)"
    unfolding y_def wy_def by (rule prefix_diff[OF assms(2)])
  have sxx: "np_sub exact ((Finite 0 # np_cumsum exact (map (np_square exact) x)) ! (u + l))
                    ((Finite 0 # np_cumsum exact (map (np_square exact) x)) ! u) = Finite (\<Sum>a\<leftarrow>wx. a\<^sup>2)"
    unfolding x_def wx_def map_square_Finite
    using prefix_diff[of u l "map power2 xs"] assms(1) by (simp add: slice_map)
  have syy: "np_sub exact ((Finite 0 # np_cumsum exact (map (np_square exact) y)) ! (v + l))
                    ((Finite 0 # np_cumsum exact (map (np_square exact) y)) ! v) = Finite (\<Sum>a\<leftarrow>wy. a\<^sup>2)"
    unfolding y_def wy_def map_square_Finite
    using prefix_diff[of v l "map power2 ys"] assms(2) by (simp add: slice_map)
  have m: "np_sub exact (M_cell exact x y (u + l) (v + l)) (M_cell exact x y u v) = Finite (dot wx wy)"
    unfolding x_def y_def wx_def wy_def dot_window[OF assms(1,2)]
    by (rule M_cell_diff[OF assms(1,2)])
  have unfolded: "pearson_metrics exact (int u) (int v) (int l)
           (Finite 0 # np_cumsum exact x) (Finite 0 # np_cumsum exact (map (np_square exact) x))
           (Finite 0 # np_cumsum exact y) (Finite 0 # np_cumsum exact (map (np_square exact) y)) (M_final exact x y) =
        (let len = Finite (real l);
             mu_x = np_div exact (Finite (sum_list wx)) len;
             mu_y = np_div exact (Finite (sum_list wy)) len;
             sigma_x = np_sqrt exact (np_sub exact (np_div exact (Finite (\<Sum>a\<leftarrow>wx. a\<^sup>2)) len) (np_square exact mu_x));
             sigma_y = np_sqrt exact (np_sub exact (np_div exact (Finite (\<Sum>a\<leftarrow>wy. a\<^sup>2)) len) (np_square exact mu_y))
         in Inr (np_div exact (np_sub exact (Finite (dot wx wy)) (np_mul exact (np_mul exact len mu_x) mu_y))
                        (np_mul exact (np_mul exact len sigma_x) sigma_y)))"
    unfolding pearson_metrics_def ul vl
      getitem_prefix[OF bounds(1)] getitem_prefix[OF bounds(2)]
      getitem_prefix[OF bounds(3)] getitem_prefix[OF bounds(4)]
      getitem_prefix[OF bounds(5)] getitem_prefix[OF bounds(6)]
      getitem_prefix[OF bounds(7)] getitem_prefix[OF bounds(8)]
      getitem2_M_final[OF bounds(1,3)] getitem2_M_final[OF bounds(2,4)]
      and_then_Inr sx sy sxx syy m
    by simp
  show ?thesis
  proof (cases "l = 0")
    case True
    then have "wx = []" using lw by simp
    with True show ?thesis unfolding unfolded by simp
  next
    case False
    then have ne: "wx \<noteq> []" "wy \<noteq> []" using lw by auto
    have "pearson_metrics exact (int u) (int v) (int l)
           (Finite 0 # np_cumsum exact x) (Finite 0 # np_cumsum exact (map (np_square exact) x))
           (Finite 0 # np_cumsum exact y) (Finite 0 # np_cumsum exact (map (np_square exact) y)) (M_final exact x y) =
          Inr (np_div exact (np_sub exact (Finite (dot wx wy))
                              (np_mul exact (np_mul exact (Finite (real l)) (Finite (mean wx))) (Finite (mean wy))))
                      (np_mul exact (np_mul exact (Finite (real l)) (Finite (stddev wx))) (Finite (stddev wy))))"
      unfolding unfolded Let_def
      using window_mean[OF ne(1)] window_mean[OF ne(2)] window_std[OF ne(1)] window_std[OF ne(2)]
      by (simp only: lw)
    then have lifted: "pearson_metrics exact (int u) (int v) (int l)
           (Finite 0 # np_cumsum exact x) (Finite 0 # np_cumsum exact (map (np_square exact) x))
           (Finite 0 # np_cumsum exact y) (Finite 0 # np_cumsum exact (map (np_square exact) y)) (M_final exact x y) =
          Inr (np_div exact (Finite (dot wx wy - real l * mean wx * mean wy))
                            (Finite (real l * stddev wx * stddev wy)))"
      by simp
    show ?thesis
    proof (cases "stddev wx = 0 \<or> stddev wy = 0")
      case True
      have "dot wx wy - real (length wx) * mean wx * mean wy = 0"
        by (rule cov_zero[OF _ ne(1) True]) (simp add: lw)
      with True show ?thesis unfolding lifted using ne lw by auto
    next
      case False
      with \<open>l \<noteq> 0\<close> ne lw show ?thesis unfolding lifted by (simp add: corr_def)
    qed
  qed
qed

section \<open>The statistic arrays against the direct computation\<close>

lemma pearson_dist_metrics_window:
  fixes xs ys :: "real list"
  assumes "u + l \<le> length xs" "v + l \<le> length ys"
  shows "calculate_metric_arrays exact (map Finite xs) (map Finite ys) = Inr (S_x, S_x2, S_y, S_y2, M) \<Longrightarrow>
         pearson_metrics exact (int u) (int v) (int l) S_x S_x2 S_y S_y2 M =
           pearson exact (slice (map Finite xs) u (u + l)) (slice (map Finite ys) v (v + l))"
proof -
  assume "calculate_metric_arrays exact (map Finite xs) (map Finite ys) = Inr (S_x, S_x2, S_y, S_y2, M)"
  then have arrays:
    "S_x = Finite 0 # np_cumsum exact (map Finite xs)"
    "S_x2 = Finite 0 # np_cumsum exact (map (np_square exact) (map Finite xs))"
    "S_y = Finite 0 # np_cumsum exact (map Finite ys)"
    "S_y2 = Finite 0 # np_cumsum exact (map (np_square exact) (map Finite ys))"
    "M = M_final exact (map Finite xs) (map Finite ys)"
    by (simp_all add: calculate_metric_arrays_eq)
  have len: "length (slice xs u (u + l)) = length (slice ys v (v + l))"
    using assms by (simp add: length_slice)
  show ?thesis
    unfolding arrays pearson_metrics_window[OF assms] slice_map pearson_Finite[OF len] ..
qed

text \<open>
  Claim C1, as amended. In exact arithmetic, for sequences \<open>xs\<close> (length n) and \<open>ys\<close>
  (length m), the five arrays built by \<open>calculate_metric_arrays\<close>, start indices \<open>u\<close>,
  \<open>v\<close> and a window length \<open>l\<close> with \<open>u + l \<le> n\<close> and \<open>v + l \<le> m\<close>: \<open>pearson_metrics\<close>
  on the arrays returns what \<open>pearson\<close> returns on the windows \<open>xs[u:u+l]\<close>,
  \<open>ys[v:v+l]\<close>, and \<open>pearson_dist_metrics\<close> what \<open>pearson_dist\<close> returns there. The
  common value is the correlation of the two windows, and NaN exactly when the window is
  empty or one of the windows has standard deviation zero.
\<close>

theorem pearson_metrics_refines_pearson:
  fixes xs ys :: "real list"
  assumes "u + l \<le> length xs" and "v + l \<le> length ys"
  shows "\<exists>S_x S_x2 S_y S_y2 M.
           calculate_metric_arrays exact (map Finite xs) (map Finite ys) = Inr (S_x, S_x2, S_y, S_y2, M) \<and>
           pearson_metrics exact (int u) (int v) (int l) S_x S_x2 S_y S_y2 M =
             pearson exact (slice (map Finite xs) u (u + l)) (slice (map Finite ys) v (v + l)) \<and>
           pearson_dist_metrics exact (int u) (int v) (int l) S_x S_x2 S_y S_y2 M =
             pearson_dist exact (slice (map Finite xs) u (u + l)) (slice (map Finite ys) v (v + l)) \<and>
           pearson_metrics exact (int u) (int v) (int l) S_x S_x2 S_y S_y2 M =
             Inr (if l = 0 \<or> stddev (slice xs u (u + l)) = 0 \<or> stddev (slice ys v (v + l)) = 0
                  then NaN
                  else Finite (corr (slice xs u (u + l)) (slice ys v (v + l))))"
proof -
  obtain S_x S_x2 S_y S_y2 M where
    c: "calculate_metric_arrays exact (map Finite xs) (map Finite ys) = Inr (S_x, S_x2, S_y, S_y2, M)"
    by (simp add: calculate_metric_arrays_eq)
  have p: "pearson_metrics exact (int u) (int v) (int l) S_x S_x2 S_y S_y2 M =
           pearson exact (slice (map Finite xs) u (u + l)) (slice (map Finite ys) v (v + l))"
    by (rule pearson_dist_metrics_window[OF assms c])
  have d: "pearson_dist_metrics exact (int u) (int v) (int l) S_x S_x2 S_y S_y2 M =
           pearson_dist exact (slice (map Finite xs) u (u + l)) (slice (map Finite ys) v (v + l))"
    unfolding pearson_dist_metrics_def pearson_dist_def p ..
  have len: "length (slice xs u (u + l)) = length (slice ys v (v + l))"
    using assms by (simp add: length_slice)
  have "slice xs u (u + l) = [] \<longleftrightarrow> l = 0"
    using assms(1) length_slice[of "u + l" xs u] by (metis add_diff_cancel_left' length_0_conv)
  then have v: "pearson_metrics exact (int u) (int v) (int l) S_x S_x2 S_y S_y2 M =
             Inr (if l = 0 \<or> stddev (slice xs u (u + l)) = 0 \<or> stddev (slice ys v (v + l)) = 0
                  then NaN
                  else Finite (corr (slice xs u (u + l)) (slice ys v (v + l))))"
    unfolding p slice_map pearson_Finite[OF len] by simp
  from c p d v show ?thesis by blast
qed

theorem pearson_metrics_refines_pearson_witness:
  "\<exists>S_x S_x2 S_y S_y2 M.
     calculate_metric_arrays exact (map Finite [1, 2, 4, 3]) (map Finite [2, 1, 5, 7]) =
       Inr (S_x, S_x2, S_y, S_y2, M) \<and>
     pearson_metrics exact 1 0 3 S_x S_x2 S_y S_y2 M =
       pearson exact [Finite 2, Finite 4, Finite 3] [Finite 2, Finite 1, Finite 5] \<and>
     pearson_dist_metrics exact 1 0 3 S_x S_x2 S_y S_y2 M =
       pearson_dist exact [Finite 2, Finite 4, Finite 3] [Finite 2, Finite 1, Finite 5] \<and>
     pearson_metrics exact 1 0 3 S_x S_x2 S_y S_y2 M = Inr (Finite (corr [2, 4, 3] [2, 1, 5]))"
proof -
  have "non_constant [2, 4, 3]" and "non_constant [2, 1, 5]"
    by (auto simp: non_constant_def)
  then have "stddev [2, 4, 3] \<noteq> 0" and "stddev [2, 1, 5] \<noteq> 0"
    by (simp_all add: non_constant_iff)
  then show ?thesis
    using pearson_metrics_refines_pearson[of 1 3 "[1, 2, 4, 3]" 0 "[2, 1, 5, 7]"]
    by (simp add: slice_def)
qed

text \<open>
  Claim C1 as stated, with its agreement within a floating-point tolerance, fails in
  float64. For \<open>x = y = [2^27, 1, 2]\<close> the prefix sums of the squares are
  \<open>[0, 2^54, 2^54, 2^54 + 4]\<close>: the square \<open>1\<close> is lost in the rounding. For the window
  \<open>(1, 1, 2)\<close>, that is \<open>[1, 2]\<close> against \<open>[1, 2]\<close>, the variance from the arrays is
  \<open>4 / 2 - (3 / 2)^2 < 0\<close>, its square root is NaN, and so are \<open>pearson_metrics\<close> and
  \<open>pearson_dist_metrics\<close>; \<open>pearson\<close> on the windows returns \<open>1\<close> and \<open>pearson_dist\<close>
  returns \<open>0\<close>.
\<close>

theorem pearson_metrics_float64_is_not_pearson:
  "list_all representable [134217728, 1, 2] \<and>
   calculate_metric_arrays float64 [Finite 134217728, Finite 1, Finite 2]
     [Finite 134217728, Finite 1, Finite 2] =
     Inr ([Finite 0, Finite 134217728, Finite 134217729, Finite 134217731],
          [Finite 0, Finite 18014398509481984, Finite 18014398509481984, Finite 18014398509481988],
          [Finite 0, Finite 134217728, Finite 134217729, Finite 134217731],
          [Finite 0, Finite 18014398509481984, Finite 18014398509481984, Finite 18014398509481988],
          [[Finite 0, Finite 0, Finite 0, Finite 0],
           [Finite 0, Finite 18014398509481984, Finite 134217728, Finite 268435456],
           [Finite 0, Finite 134217728, Finite 18014398509481984, Finite 134217730],
           [Finite 0, Finite 268435456, Finite 134217730, Finite 18014398509481988]]) \<and>
   pearson_metrics float64 1 1 2
     [Finite 0, Finite 134217728, Finite 134217729, Finite 134217731]
     [Finite 0, Finite 18014398509481984, Finite 18014398509481984, Finite 18014398509481988]
     [Finite 0, Finite 134217728, Finite 134217729, Finite 134217731]
     [Finite 0, Finite 18014398509481984, Finite 18014398509481984, Finite 18014398509481988]
     [[Finite 0, Finite 0, Finite 0, Finite 0],
      [Finite 0, Finite 18014398509481984, Finite 134217728, Finite 268435456],
      [Finite 0, Finite 134217728, Finite 18014398509481984, Finite 134217730],
      [Finite 0, Finite 268435456, Finite 134217730, Finite 18014398509481988]] = Inr NaN \<and>
   pearson_dist_metrics float64 1 1 2
     [Finite 0, Finite 134217728, Finite 134217729, Finite 134217731]
     [Finite 0, Finite 18014398509481984, Finite 18014398509481984, Finite 18014398509481988]
     [Finite 0, Finite 134217728, Finite 134217729, Finite 134217731]
     [Finite 0, Finite 18014398509481984, Finite 18014398509481984, Finite 18014398509481988]
     [[Finite 0, Finite 0, Finite 0, Finite 0],
      [Finite 0, Finite 18014398509481984, Finite 134217728, Finite 268435456],
      [Finite 0, Finite 134217728, Finite 18014398509481984, Finite 134217730],
      [Finite 0, Finite 268435456, Finite 134217730, Finite 18014398509481988]] = Inr NaN \<and>
   slice [Finite 134217728, Finite 1, Finite 2] 1 (1 + 2) = [Finite 1, Finite 2] \<and>
   pearson float64 [Finite 1, Finite 2] [Finite 1, Finite 2] = Inr (Finite 1) \<and>
   pearson_dist float64 [Finite 1, Finite 2] [Finite 1, Finite 2] = Inr (Finite 0)"
proof -
  have r: "list_all representable [134217728, 1, 2]"
    by (simp add: representable_def float64_roundings)
  have c: "calculate_metric_arrays float64 [Finite 134217728, Finite 1, Finite 2]
     [Finite 134217728, Finite 1, Finite 2] =
     Inr ([Finite 0, Finite 134217728, Finite 134217729, Finite 134217731],
          [Finite 0, Finite 18014398509481984, Finite 18014398509481984, Finite 18014398509481988],
          [Finite 0, Finite 134217728, Finite 134217729, Finite 134217731],
          [Finite 0, Finite 18014398509481984, Finite 18014398509481984, Finite 18014398509481988],
          [[Finite 0, Finite 0, Finite 0, Finite 0],
           [Finite 0, Finite 18014398509481984, Finite 134217728, Finite 268435456],
           [Finite 0, Finite 134217728, Finite 18014398509481984, Finite 134217730],
           [Finite 0, Finite 268435456, Finite 134217730, Finite 18014398509481988]])"
    by (simp add: calculate_metric_arrays_eq M_final_def np_cumsum_def np_square_def
        float64_roundings)
  have m: "pearson_metrics float64 1 1 2
     [Finite 0, Finite 134217728, Finite 134217729, Finite 134217731]
     [Finite 0, Finite 18014398509481984, Finite 18014398509481984, Finite 18014398509481988]
     [Finite 0, Finite 134217728, Finite 134217729, Finite 134217731]
     [Finite 0, Finite 18014398509481984, Finite 18014398509481984, Finite 18014398509481988]
     [[Finite 0, Finite 0, Finite 0, Finite 0],
      [Finite 0, Finite 18014398509481984, Finite 134217728, Finite 268435456],
      [Finite 0, Finite 134217728, Finite 18014398509481984, Finite 134217730],
      [Finite 0, Finite 268435456, Finite 134217730, Finite 18014398509481988]] = Inr NaN"
    by (simp add: pearson_metrics_def getitem_def getitem2_def np_index_def np_square_def
        float64_roundings)
  have s: "slice [Finite 134217728, Finite 1, Finite 2] 1 (1 + 2) = [Finite 1, Finite (2::real)]"
    by (simp add: slice_def)
  have p: "pearson float64 [Finite 1, Finite 2] [Finite 1, Finite 2] = Inr (Finite 1)"
    by (simp add: pearson_def np_mean_def np_std_def np_sum_def np_square_def np_broadcast_def
        float64_roundings sqrt_roundings)
  have d: "pearson_dist float64 [Finite 1, Finite 2] [Finite 1, Finite 2] = Inr (Finite 0)"
    by (simp add: pearson_dist_def p float64_roundings)
  from r c m s p d show ?thesis
    by (simp add: pearson_dist_metrics_def)
qed

section \<open>The matrix of sums of products\<close>

lemma M_final_length: "length (M_final rnd x y) = length x + 1"
  by (simp add: M_final_def del: upt_Suc)

lemma M_final_row_length: "i \<le> length x \<Longrightarrow> length (M_final rnd x y ! i) = length y + 1"
  by (simp add: M_final_def del: upt_Suc)

lemma M_final_recurrence:
  "u < length x \<Longrightarrow> v < length y \<Longrightarrow>
   M_final rnd x y ! Suc u ! Suc v = np_add rnd (M_final rnd x y ! u ! v) (np_mul rnd (x ! u) (y ! v))"
  by (simp add: M_final_nth)

lemma M_body_uniform:
  "M_body rnd x y u v M =
     and_then (getitem2 M (int u) (int v)) (\<lambda>m0.
     and_then (getitem x (int u)) (\<lambda>a.
     and_then (getitem y (int v)) (\<lambda>b.
       setitem2 M (int u + 1) (int v + 1) (np_add rnd m0 (np_mul rnd a b)))))"
proof (cases "u > v")
  case True
  then have "int v + \<bar>int u - int v\<bar> = int u" by simp
  with True show ?thesis by (simp add: M_body_def)
next
  case False
  then have "int u + \<bar>int u - int v\<bar> = int v" by simp
  with False show ?thesis by (simp add: M_body_def)
qed

text \<open>
  Claim C2. \<open>calculate_metric_arrays x y\<close> builds \<open>M\<close> as an (n+1) x (m+1) matrix whose
  row 0 and column 0 are all zero, and for each \<open>u\<close> in [0,n) and \<open>v\<close> in [0,m), with
  \<open>t = |u - v|\<close>: if \<open>u > v\<close> then \<open>M[u+1,v+1] = M[u,v] + x[v+t] * y[v]\<close>, otherwise
  \<open>M[u+1,v+1] = M[u,v] + x[u] * y[u+t]\<close>. The loop raises no exception, for any two arrays,
  and the sums and products are those of the program's own arithmetic, whatever the
  rounding.
\<close>

theorem calculate_metric_arrays_builds_M:
  "\<exists>S_x S_x2 S_y S_y2 M.
     calculate_metric_arrays rnd x y = Inr (S_x, S_x2, S_y, S_y2, M) \<and>
     length M = length x + 1 \<and>
     (\<forall>i \<le> length x. length (M ! i) = length y + 1) \<and>
     (\<forall>j \<le> length y. M ! 0 ! j = Finite 0) \<and>
     (\<forall>i \<le> length x. M ! i ! 0 = Finite 0) \<and>
     (\<forall>u < length x. \<forall>v < length y.
        M ! (u + 1) ! (v + 1) =
          (let t = nat \<bar>int u - int v\<bar> in
           if u > v then np_add rnd (M ! u ! v) (np_mul rnd (x ! (v + t)) (y ! v))
           else np_add rnd (M ! u ! v) (np_mul rnd (x ! u) (y ! (u + t)))))"
proof -
  let ?M = "M_final rnd x y"
  have rec: "?M ! (u + 1) ! (v + 1) =
          (let t = nat \<bar>int u - int v\<bar> in
           if u > v then np_add rnd (?M ! u ! v) (np_mul rnd (x ! (v + t)) (y ! v))
           else np_add rnd (?M ! u ! v) (np_mul rnd (x ! u) (y ! (u + t))))"
    if "u < length x" "v < length y" for u v
  proof (cases "u > v")
    case True
    then have t: "nat \<bar>int u - int v\<bar> = u - v" by simp
    show ?thesis unfolding Let_def t using True that by (simp add: M_final_recurrence)
  next
    case False
    then have t: "nat \<bar>int u - int v\<bar> = v - u" by simp
    show ?thesis unfolding Let_def t using False that by (simp add: M_final_recurrence)
  qed
  have row0: "?M ! 0 ! j = Finite 0" if "j \<le> length y" for j
    using that by (simp add: M_final_nth)
  have col0: "?M ! i ! 0 = Finite 0" if "i \<le> length x" for i
    using that by (cases i) (simp_all add: M_final_nth)
  show ?thesis
    using calculate_metric_arrays_eq[of rnd x y] M_final_length[of rnd x y]
      M_final_row_length[where x = x and y = y and rnd = rnd]
      row0 col0 rec
    by blast
qed

theorem calculate_metric_arrays_builds_M_witness:
  "\<exists>S_x S_x2 S_y S_y2 M.
     calculate_metric_arrays float64 [Finite 1, Finite 2, Finite 3] [Finite 4, Finite 5] =
       Inr (S_x, S_x2, S_y, S_y2, M) \<and>
     length M = 4 \<and> length (M ! 3) = 3 \<and> M ! 0 ! 2 = Finite 0 \<and> M ! 3 ! 0 = Finite 0 \<and>
     M ! 3 ! 1 = np_add float64 (M ! 2 ! 0) (np_mul float64 (Finite 3) (Finite 4)) \<and>
     M ! 1 ! 2 = np_add float64 (M ! 0 ! 1) (np_mul float64 (Finite 1) (Finite 5))"
proof -
  obtain S_x S_x2 S_y S_y2 M where
    c: "calculate_metric_arrays float64 [Finite 1, Finite 2, Finite 3] [Finite 4, Finite 5] =
          Inr (S_x, S_x2, S_y, S_y2, M)"
    and len: "length M = length [Finite 1, Finite 2, Finite 3] + 1"
    and rows: "\<forall>i \<le> length [Finite 1, Finite 2, Finite 3]. length (M ! i) = length [Finite 4, Finite 5] + 1"
    and row0: "\<forall>j \<le> length [Finite 4, Finite 5]. M ! 0 ! j = Finite 0"
    and col0: "\<forall>i \<le> length [Finite 1, Finite 2, Finite 3]. M ! i ! 0 = Finite 0"
    and rec: "\<forall>u < length [Finite 1, Finite 2, Finite 3]. \<forall>v < length [Finite 4, Finite 5].
        M ! (u + 1) ! (v + 1) =
          (let t = nat \<bar>int u - int v\<bar> in
           if u > v then np_add float64 (M ! u ! v) (np_mul float64 ([Finite 1, Finite 2, Finite 3] ! (v + t)) ([Finite 4, Finite 5] ! v))
           else np_add float64 (M ! u ! v) (np_mul float64 ([Finite 1, Finite 2, Finite 3] ! u) ([Finite 4, Finite 5] ! (u + t))))"
    using calculate_metric_arrays_builds_M[of float64 "[Finite 1, Finite 2, Finite 3]"
        "[Finite 4, Finite 5]"]
    by blast
  have "length (M ! 3) = 3" using rows by simp
  moreover have "M ! 0 ! 2 = Finite 0" using row0 by simp
  moreover have "M ! 3 ! 0 = Finite 0" using col0 by simp
  moreover have "M ! 3 ! 1 = np_add float64 (M ! 2 ! 0) (np_mul float64 (Finite 3) (Finite 4))"
    using rec[rule_format, of 2 0] by (simp add: numeral_2_eq_2 numeral_3_eq_3)
  moreover have "M ! 1 ! 2 = np_add float64 (M ! 0 ! 1) (np_mul float64 (Finite 1) (Finite 5))"
    using rec[rule_format, of 0 1] by (simp add: numeral_2_eq_2)
  ultimately show ?thesis using c len by simp
qed

lemma M_final_diff:
  assumes "u + l \<le> length xs" "v + l \<le> length ys"
  shows "np_sub exact (M_final exact (map Finite xs) (map Finite ys) ! (u + l) ! (v + l))
                (M_final exact (map Finite xs) (map Finite ys) ! u ! v) =
         Finite (\<Sum>i<l. xs ! (u + i) * ys ! (v + i))"
  using assms by (simp add: M_final_nth M_cell_diff)

text \<open>
  Claim C3, as amended. In exact arithmetic, for sequences \<open>xs\<close> (length n), \<open>ys\<close>
  (length m) and the matrix \<open>M\<close> built by \<open>calculate_metric_arrays\<close>, and for a query
  \<open>(u, v, l)\<close> with \<open>u + l \<le> n\<close> and \<open>v + l \<le> m\<close>: the two cells that \<open>pearson_metrics\<close>
  reads, \<open>M[u+l, v+l]\<close> and \<open>M[u, v]\<close>, exist, and their difference is the sum of the
  products \<open>xs[u+i] * ys[v+i]\<close> for \<open>i = 0, ..., l-1\<close>. The offset \<open>u - v\<close> is the same at
  every cell \<open>(u+i, v+i)\<close> of the diagonal the query runs along, so every query is aligned
  with how \<open>M\<close> was built and the statement needs no further condition on the alignment.
\<close>

theorem M_difference_is_window_dot_product:
  fixes xs ys :: "real list"
  assumes "u + l \<le> length xs" and "v + l \<le> length ys"
  shows "\<exists>S_x S_x2 S_y S_y2 M m1 m0.
           calculate_metric_arrays exact (map Finite xs) (map Finite ys) =
             Inr (S_x, S_x2, S_y, S_y2, M) \<and>
           getitem2 M (int u + int l) (int v + int l) = Inr m1 \<and>
           getitem2 M (int u) (int v) = Inr m0 \<and>
           np_sub exact m1 m0 = Finite (\<Sum>i<l. xs ! (u + i) * ys ! (v + i))"
proof -
  let ?x = "map Finite xs" and ?y = "map Finite ys"
  have b: "u + l \<le> length ?x" "v + l \<le> length ?y" "u \<le> length ?x" "v \<le> length ?y"
    using assms by simp_all
  have "getitem2 (M_final exact ?x ?y) (int u + int l) (int v + int l) =
        Inr (M_cell exact ?x ?y (u + l) (v + l))"
    using getitem2_M_final[OF b(1,2)] by simp
  moreover have "getitem2 (M_final exact ?x ?y) (int u) (int v) = Inr (M_cell exact ?x ?y u v)"
    by (rule getitem2_M_final[OF b(3,4)])
  moreover have "np_sub exact (M_cell exact ?x ?y (u + l) (v + l)) (M_cell exact ?x ?y u v) =
                 Finite (\<Sum>i<l. xs ! (u + i) * ys ! (v + i))"
    by (rule M_cell_diff[OF assms])
  ultimately show ?thesis
    using calculate_metric_arrays_eq[of exact ?x ?y] by blast
qed

theorem M_difference_is_window_dot_product_witness:
  "\<exists>S_x S_x2 S_y S_y2 M m1 m0.
     calculate_metric_arrays exact (map Finite [1, 2, 4, 3]) (map Finite [2, 1, 5]) =
       Inr (S_x, S_x2, S_y, S_y2, M) \<and>
     getitem2 M 4 2 = Inr m1 \<and> getitem2 M 2 0 = Inr m0 \<and>
     np_sub exact m1 m0 = Finite (4 * 2 + 3 * 1)"
  using M_difference_is_window_dot_product[of 2 2 "[1, 2, 4, 3]" 0 "[2, 1, 5]"]
  by (simp add: lessThan_Suc numeral_2_eq_2)

lemma calculate_metric_arrays_eval:
  "calculate_metric_arrays rnd x y =
     Inr (Finite 0 # np_cumsum rnd x, Finite 0 # np_cumsum rnd (map (np_square rnd) x),
          Finite 0 # np_cumsum rnd y, Finite 0 # np_cumsum rnd (map (np_square rnd) y),
          map (\<lambda>i. map (M_cell rnd x y i) [0..<Suc (length y)]) [0..<Suc (length x)])"
  by (simp only: calculate_metric_arrays_eq M_final_def)

text \<open>
  Claim C3 as stated, of the values the program computes, fails in float64: for
  \<open>x = [2^53, 1]\<close> and \<open>y = [1, 1]\<close> the cell \<open>M[2,2]\<close> is \<open>2^53 + 1\<close> rounded, which is
  \<open>2^53\<close> again, so that \<open>M[2,2] - M[1,1]\<close> is \<open>0\<close> for the query \<open>(1, 1, 1)\<close>, whose sum
  of products is \<open>x[1] * y[1] = 1\<close>.
\<close>

theorem M_difference_float64_loses_product:
  "representable 9007199254740992 \<and> representable 1 \<and>
   calculate_metric_arrays float64 [Finite 9007199254740992, Finite 1] [Finite 1, Finite 1] =
     Inr ([Finite 0, Finite 9007199254740992, Finite 9007199254740992],
          [Finite 0, Finite 81129638414606681695789005144064,
           Finite 81129638414606681695789005144064],
          [Finite 0, Finite 1, Finite 2],
          [Finite 0, Finite 1, Finite 2],
          [[Finite 0, Finite 0, Finite 0],
           [Finite 0, Finite 9007199254740992, Finite 9007199254740992],
           [Finite 0, Finite 1, Finite 9007199254740992]]) \<and>
   getitem2 [[Finite 0, Finite 0, Finite 0],
             [Finite 0, Finite 9007199254740992, Finite 9007199254740992],
             [Finite 0, Finite 1, Finite 9007199254740992]] (1 + 1) (1 + 1) =
     Inr (Finite 9007199254740992) \<and>
   getitem2 [[Finite 0, Finite 0, Finite 0],
             [Finite 0, Finite 9007199254740992, Finite 9007199254740992],
             [Finite 0, Finite 1, Finite 9007199254740992]] 1 1 =
     Inr (Finite 9007199254740992) \<and>
   np_sub float64 (Finite 9007199254740992) (Finite 9007199254740992) = Finite 0 \<and>
   (\<Sum>i<1. [9007199254740992, 1] ! (1 + i) * [1, 1] ! (1 + i)) = (1::real)"
  by (simp add: representable_def calculate_metric_arrays_eval np_cumsum_def np_square_def
      getitem2_def np_index_def float64_roundings)

text \<open>
  Claim C10, as amended. In the loop of \<open>calculate_metric_arrays\<close> that fills \<open>M\<close>, the two
  branches of the test \<open>u > v\<close> do the same: with \<open>t = |u - v|\<close>, \<open>x[v+t]\<close> is \<open>x[u]\<close> when
  \<open>u > v\<close> and \<open>y[u+t]\<close> is \<open>y[v]\<close> otherwise, so each pass of the body reads \<open>M[u,v]\<close>,
  \<open>x[u]\<close>, \<open>y[v]\<close> and stores \<open>M[u,v] + x[u] * y[v]\<close> in \<open>M[u+1,v+1]\<close>. Hence the finished
  matrix satisfies \<open>M[u+1,v+1] = M[u,v] + x[u] * y[v]\<close> for all \<open>u < n\<close>, \<open>v < m\<close>, in the
  program's own arithmetic, whatever the rounding. In exact arithmetic, hence,
  \<open>M[u+l,v+l] - M[u,v]\<close> is the sum of the products \<open>x[u+i] * y[v+i]\<close>, \<open>i < l\<close>, for every
  \<open>(u, v, l)\<close> with \<open>u + l \<le> n\<close> and \<open>v + l \<le> m\<close>, whatever the offset \<open>u - v\<close>.
\<close>

theorem M_branches_coincide:
  fixes xs ys :: "real list"
  shows
   "M_body rnd x y p q M0 =
      and_then (getitem2 M0 (int p) (int q)) (\<lambda>m0.
      and_then (getitem x (int p)) (\<lambda>a.
      and_then (getitem y (int q)) (\<lambda>b.
        setitem2 M0 (int p + 1) (int q + 1) (np_add rnd m0 (np_mul rnd a b))))) \<and>
    (\<exists>S_x S_x2 S_y S_y2 M.
       calculate_metric_arrays rnd x y = Inr (S_x, S_x2, S_y, S_y2, M) \<and>
       (\<forall>u < length x. \<forall>v < length y.
          M ! (u + 1) ! (v + 1) = np_add rnd (M ! u ! v) (np_mul rnd (x ! u) (y ! v)))) \<and>
    (\<exists>S_x S_x2 S_y S_y2 M.
       calculate_metric_arrays exact (map Finite xs) (map Finite ys) =
         Inr (S_x, S_x2, S_y, S_y2, M) \<and>
       (\<forall>u v l. u + l \<le> length xs \<and> v + l \<le> length ys \<longrightarrow>
          np_sub exact (M ! (u + l) ! (v + l)) (M ! u ! v) =
          Finite (\<Sum>i<l. xs ! (u + i) * ys ! (v + i))))"
proof -
  let ?M = "M_final rnd x y"
  let ?E = "M_final exact (map Finite xs) (map Finite ys)"
  have "?M ! (u + 1) ! (v + 1) = np_add rnd (?M ! u ! v) (np_mul rnd (x ! u) (y ! v))"
    if "u < length x" "v < length y" for u v
    using that by (simp add: M_final_recurrence)
  then have rec: "\<exists>S_x S_x2 S_y S_y2 M.
       calculate_metric_arrays rnd x y = Inr (S_x, S_x2, S_y, S_y2, M) \<and>
       (\<forall>u < length x. \<forall>v < length y.
          M ! (u + 1) ! (v + 1) = np_add rnd (M ! u ! v) (np_mul rnd (x ! u) (y ! v)))"
    using calculate_metric_arrays_eq[of rnd x y] by blast
  have "np_sub exact (?E ! (u + l) ! (v + l)) (?E ! u ! v) =
        Finite (\<Sum>i<l. xs ! (u + i) * ys ! (v + i))"
    if "u + l \<le> length xs \<and> v + l \<le> length ys" for u v l
    using that by (simp add: M_final_diff)
  then have diff: "\<exists>S_x S_x2 S_y S_y2 M.
       calculate_metric_arrays exact (map Finite xs) (map Finite ys) =
         Inr (S_x, S_x2, S_y, S_y2, M) \<and>
       (\<forall>u v l. u + l \<le> length xs \<and> v + l \<le> length ys \<longrightarrow>
          np_sub exact (M ! (u + l) ! (v + l)) (M ! u ! v) =
          Finite (\<Sum>i<l. xs ! (u + i) * ys ! (v + i)))"
    using calculate_metric_arrays_eq[of exact "map Finite xs" "map Finite ys"] by blast
  from M_body_uniform[of rnd x y p q M0] rec diff show ?thesis by blast
qed

theorem M_branches_coincide_witness:
  "M_body float64 [Finite 1, Finite 2] [Finite 3, Finite 4] 0 1
     [[Finite 0, Finite 0, Finite 0], [Finite 0, Finite 0, Finite 0], [Finite 0, Finite 0, Finite 0]] =
   Inr [[Finite 0, Finite 0, Finite 0], [Finite 0, Finite 0, Finite 4], [Finite 0, Finite 0, Finite 0]] \<and>
   (\<exists>S_x S_x2 S_y S_y2 M.
      calculate_metric_arrays float64 [Finite 1, Finite 2, Finite 4, Finite 3]
        [Finite 2, Finite 1, Finite 5] = Inr (S_x, S_x2, S_y, S_y2, M) \<and>
      M ! 4 ! 1 = np_add float64 (M ! 3 ! 0) (np_mul float64 (Finite 3) (Finite 2)) \<and>
      M ! 1 ! 3 = np_add float64 (M ! 0 ! 2) (np_mul float64 (Finite 1) (Finite 5))) \<and>
   (\<exists>S_x S_x2 S_y S_y2 M.
      calculate_metric_arrays exact (map Finite [1, 2, 4, 3]) (map Finite [2, 1, 5]) =
        Inr (S_x, S_x2, S_y, S_y2, M) \<and>
      np_sub exact (M ! 3 ! 3) (M ! 1 ! 1) = Finite (2 * 1 + 4 * 5))"
proof -
  let ?Z = "[[Finite 0, Finite 0, Finite 0], [Finite 0, Finite 0, Finite 0], [Finite 0, Finite 0, Finite 0]]"
  let ?x = "[Finite 1, Finite 2, Finite 4, Finite 3]" and ?y = "[Finite 2, Finite 1, Finite 5]"
  note inst = M_branches_coincide[of float64 "[Finite 1, Finite 2]" "[Finite 3, Finite 4]" 0 1 ?Z
      "[1, 2, 4, 3]" "[2, 1, 5]"]
  note inst2 = M_branches_coincide[of float64 ?x ?y 0 0 "[]" "[1, 2, 4, 3]" "[2, 1, 5]"]
  have body: "M_body float64 [Finite 1, Finite 2] [Finite 3, Finite 4] 0 1 ?Z =
      Inr [[Finite 0, Finite 0, Finite 0], [Finite 0, Finite 0, Finite 4], [Finite 0, Finite 0, Finite 0]]"
    unfolding inst[THEN conjunct1]
    by (simp add: getitem2_def getitem_def setitem2_def np_index_def float64_roundings)
  obtain S_x S_x2 S_y S_y2 M where
    c: "calculate_metric_arrays float64 ?x ?y = Inr (S_x, S_x2, S_y, S_y2, M)"
    and rec: "\<forall>u < length ?x. \<forall>v < length ?y.
          M ! (u + 1) ! (v + 1) = np_add float64 (M ! u ! v) (np_mul float64 (?x ! u) (?y ! v))"
    using inst2[THEN conjunct2, THEN conjunct1] by blast
  have r1: "M ! 4 ! 1 = np_add float64 (M ! 3 ! 0) (np_mul float64 (Finite 3) (Finite 2))"
    using rec[rule_format, of 3 0] by (simp add: eval_nat_numeral)
  have r2: "M ! 1 ! 3 = np_add float64 (M ! 0 ! 2) (np_mul float64 (Finite 1) (Finite 5))"
    using rec[rule_format, of 0 2] by (simp add: eval_nat_numeral)
  obtain T_x T_x2 T_y T_y2 E where
    e: "calculate_metric_arrays exact (map Finite [1, 2, 4, 3]) (map Finite [2, 1, 5]) =
          Inr (T_x, T_x2, T_y, T_y2, E)"
    and diff: "\<forall>u v l. u + l \<le> length [1, 2, 4, 3::real] \<and> v + l \<le> length [2, 1, 5::real] \<longrightarrow>
          np_sub exact (E ! (u + l) ! (v + l)) (E ! u ! v) =
          Finite (\<Sum>i<l. [1, 2, 4, 3] ! (u + i) * [2, 1, 5] ! (v + i))"
    using inst[THEN conjunct2, THEN conjunct2] by blast
  have d: "np_sub exact (E ! 3 ! 3) (E ! 1 ! 1) = Finite (2 * 1 + 4 * 5)"
    using diff[rule_format, of 1 2 1] by (simp add: lessThan_Suc eval_nat_numeral)
  from body c r1 r2 e d show ?thesis by blast
qed

text \<open>
  The last part of claim C10 as stated, of the values the program computes, fails in
  float64: for \<open>x = y = [2^27, 1]\<close> the cell \<open>M[2,2]\<close> is \<open>2^54 + 1\<close> rounded, which is
  \<open>2^54\<close> again, so that \<open>M[2,2] - M[1,1]\<close> is \<open>0\<close> for \<open>(u, v, l) = (1, 1, 1)\<close>, not
  \<open>x[1] * y[1] = 1\<close>.
\<close>

theorem M_difference_float64_is_not_the_sum:
  "representable 134217728 \<and> representable 1 \<and>
   calculate_metric_arrays float64 [Finite 134217728, Finite 1] [Finite 134217728, Finite 1] =
     Inr ([Finite 0, Finite 134217728, Finite 134217729],
          [Finite 0, Finite 18014398509481984, Finite 18014398509481984],
          [Finite 0, Finite 134217728, Finite 134217729],
          [Finite 0, Finite 18014398509481984, Finite 18014398509481984],
          [[Finite 0, Finite 0, Finite 0],
           [Finite 0, Finite 18014398509481984, Finite 134217728],
           [Finite 0, Finite 134217728, Finite 18014398509481984]]) \<and>
   np_sub float64
     ([[Finite 0, Finite 0, Finite 0],
       [Finite 0, Finite 18014398509481984, Finite 134217728],
       [Finite 0, Finite 134217728, Finite 18014398509481984]] ! (1 + 1) ! (1 + 1))
     ([[Finite 0, Finite 0, Finite 0],
       [Finite 0, Finite 18014398509481984, Finite 134217728],
       [Finite 0, Finite 134217728, Finite 18014398509481984]] ! 1 ! 1) = Finite 0 \<and>
   (\<Sum>i<1. [134217728, 1] ! (1 + i) * [134217728, 1] ! (1 + i)) = (1::real)"
  by (simp add: representable_def calculate_metric_arrays_eval np_cumsum_def np_square_def
      float64_roundings)

section \<open>A float64 run: three times \<open>2^53\<close> and \<open>2^53 + 4\<close>\<close>

text \<open>The sum of the four numbers is \<open>2^55 + 4\<close>, which rounds to \<open>2^55\<close>: the mean that
  \<open>np.mean\<close> returns is \<open>2^53\<close>, not \<open>2^53 + 1\<close>, the deviations from it are \<open>0, 0, 0, 4\<close>
  and the standard deviation that \<open>np.std\<close> returns is \<open>2\<close>.\<close>

lemma run_mean:
  "np_mean float64 [Finite 9007199254740992, Finite 9007199254740992, Finite 9007199254740992,
     Finite 9007199254740996] = Finite 9007199254740992"
  by (simp add: np_mean_def np_sum_def float64_roundings)

lemma run_std:
  "np_std float64 [Finite 9007199254740992, Finite 9007199254740992, Finite 9007199254740992,
     Finite 9007199254740996] = Finite 2"
  by (simp add: np_std_def run_mean np_square_def np_mean_def np_sum_def float64_roundings
      sqrt_roundings)

lemma run_z_norm:
  "z_norm float64 [Finite 9007199254740992, Finite 9007199254740992, Finite 9007199254740992,
     Finite 9007199254740996] = [Finite 0, Finite 0, Finite 0, Finite 2]"
  by (simp add: z_norm_def run_mean run_std float64_roundings)

lemma run_pearson:
  "pearson float64 [Finite 9007199254740992, Finite 9007199254740992, Finite 9007199254740992,
     Finite 9007199254740996]
     [Finite 9007199254740992, Finite 9007199254740992, Finite 9007199254740992,
     Finite 9007199254740996] = Inr (Finite 4503599627370496)"
  by (simp add: pearson_def run_mean run_std np_broadcast_def np_sum_def float64_roundings)

lemma run_pearson_dist:
  "pearson_dist float64 [Finite 9007199254740992, Finite 9007199254740992, Finite 9007199254740992,
     Finite 9007199254740996]
     [Finite 9007199254740992, Finite 9007199254740992, Finite 9007199254740992,
     Finite 9007199254740996] = Inr NaN"
  by (simp add: pearson_dist_def run_pearson float64_roundings)

lemma run_distance:
  "norm_euclidean_distance float64 [Finite 0, Finite 0, Finite 0, Finite 2]
     [Finite 0, Finite 0, Finite 0, Finite 2] = Inr (Finite 0)"
  by (simp add: norm_euclidean_distance_def np_broadcast_def np_linalg_norm_def np_sum_def
      np_square_def float64_roundings sqrt_roundings)

lemma run_mean_z: "np_mean float64 [Finite 0, Finite 0, Finite 0, Finite 2] = Finite (1 / 2)"
  by (simp add: np_mean_def np_sum_def float64_roundings)

lemma run_representable:
  "list_all representable [9007199254740992, 9007199254740992, 9007199254740992, 9007199254740996]"
  by (simp add: representable_def float64_roundings)

lemma run_non_constant:
  "non_constant [9007199254740992, 9007199254740992, 9007199254740992, 9007199254740996]"
  by (auto simp: non_constant_def)

section \<open>Normalisation and distances\<close>

text \<open>
  Claim C4, as amended. In exact arithmetic, for equal-length non-constant sequences \<open>xs\<close>
  and \<open>ys\<close>, \<open>norm_euclidean_distance (z_norm xs) (z_norm ys)\<close> equals
  \<open>pearson_dist xs ys\<close>, which is the square root of \<open>2 * (1 - pearson xs ys)\<close>.
\<close>

theorem norm_euclidean_distance_z_norm_is_pearson_dist:
  fixes xs ys :: "real list"
  assumes "length xs = length ys" and "non_constant xs" and "non_constant ys"
  shows "norm_euclidean_distance exact (z_norm exact (map Finite xs)) (z_norm exact (map Finite ys)) =
           pearson_dist exact (map Finite xs) (map Finite ys) \<and>
         pearson exact (map Finite xs) (map Finite ys) = Inr (Finite (corr xs ys)) \<and>
         pearson_dist exact (map Finite xs) (map Finite ys) = Inr (Finite (sqrt (2 * (1 - corr xs ys))))"
proof -
  have "pearson exact (map Finite xs) (map Finite ys) = Inr (Finite (corr xs ys))"
    using assms by (simp add: pearson_Finite non_constant_iff)
  then show ?thesis
    by (simp add: ned_z_norm[OF assms] pearson_dist_Finite[OF assms])
qed

theorem norm_euclidean_distance_z_norm_is_pearson_dist_witness:
  "norm_euclidean_distance exact (z_norm exact (map Finite [1, 2, 4])) (z_norm exact (map Finite [3, 1, 2])) =
     pearson_dist exact (map Finite [1, 2, 4]) (map Finite [3, 1, 2]) \<and>
   pearson_dist exact (map Finite [1, 2, 4]) (map Finite [3, 1, 2]) =
     Inr (Finite (sqrt (2 * (1 - corr [1, 2, 4] [3, 1, 2]))))"
proof -
  have "non_constant [1, 2, 4]" and "non_constant [3, 1, 2]"
    by (auto simp: non_constant_def)
  then show ?thesis
    using norm_euclidean_distance_z_norm_is_pearson_dist[of "[1, 2, 4]" "[3, 1, 2]"] by simp
qed

text \<open>
  Claim C4 as stated, with its agreement within \<open>1e-6\<close>, fails in float64. For
  \<open>x = y = [2^53, 2^53, 2^53, 2^53 + 4]\<close>, non-constant and of equal length,
  \<open>z_norm\<close> returns \<open>[0, 0, 0, 2]\<close> for both and their normalised distance is \<open>0\<close>, while
  \<open>pearson\<close> returns \<open>2^52\<close> (the sum of the products is \<open>2^108 + 2^56\<close>, and
  \<open>m * mean x * mean y\<close> is \<open>2^108\<close>), so that \<open>pearson_dist\<close> takes the square root of a
  negative number and returns NaN.
\<close>

theorem distance_of_z_norm_float64_is_not_pearson_dist:
  "list_all representable [9007199254740992, 9007199254740992, 9007199254740992, 9007199254740996] \<and>
   non_constant [9007199254740992, 9007199254740992, 9007199254740992, 9007199254740996] \<and>
   z_norm float64 [Finite 9007199254740992, Finite 9007199254740992, Finite 9007199254740992,
     Finite 9007199254740996] = [Finite 0, Finite 0, Finite 0, Finite 2] \<and>
   norm_euclidean_distance float64
     (z_norm float64 [Finite 9007199254740992, Finite 9007199254740992, Finite 9007199254740992,
     Finite 9007199254740996])
     (z_norm float64 [Finite 9007199254740992, Finite 9007199254740992, Finite 9007199254740992,
     Finite 9007199254740996]) = Inr (Finite 0) \<and>
   pearson float64 [Finite 9007199254740992, Finite 9007199254740992, Finite 9007199254740992,
     Finite 9007199254740996]
     [Finite 9007199254740992, Finite 9007199254740992, Finite 9007199254740992,
     Finite 9007199254740996] = Inr (Finite 4503599627370496) \<and>
   pearson_dist float64 [Finite 9007199254740992, Finite 9007199254740992, Finite 9007199254740992,
     Finite 9007199254740996]
     [Finite 9007199254740992, Finite 9007199254740992, Finite 9007199254740992,
     Finite 9007199254740996] = Inr NaN"
  using run_representable run_non_constant
  by (simp add: run_z_norm run_distance run_pearson run_pearson_dist)

text \<open>
  Claim C5, as amended. In exact arithmetic, for a non-constant sequence \<open>xs\<close> (its
  standard deviation is not zero), \<open>z_norm\<close> returns \<open>(a - mean xs) / stddev xs\<close> for each
  element \<open>a\<close>, and the returned sequence has mean 0 and standard deviation 1.
\<close>

theorem z_norm_zero_mean_unit_variance:
  fixes xs :: "real list"
  assumes "non_constant xs"
  shows "stddev xs \<noteq> 0 \<and>
         z_norm exact (map Finite xs) = map (\<lambda>a. Finite ((a - mean xs) / stddev xs)) xs \<and>
         np_mean exact (z_norm exact (map Finite xs)) = Finite 0 \<and>
         np_std exact (z_norm exact (map Finite xs)) = Finite 1"
proof -
  from assms have ne: "xs \<noteq> []" "stddev xs \<noteq> 0" by (simp_all add: non_constant_iff)
  then have zne: "z_scores xs \<noteq> []" by (simp add: z_scores_def)
  have "z_norm exact (map Finite xs) = map (\<lambda>a. Finite ((a - mean xs) / stddev xs)) xs"
    unfolding z_norm_Finite[OF assms] by (simp add: z_scores_def)
  moreover have "np_mean exact (z_norm exact (map Finite xs)) = Finite 0"
    unfolding z_norm_Finite[OF assms] np_mean_Finite using zne ne by (simp add: mean_z_scores)
  moreover have "np_std exact (z_norm exact (map Finite xs)) = Finite 1"
    unfolding z_norm_Finite[OF assms] np_std_Finite using zne ne by (simp add: stddev_z_scores)
  ultimately show ?thesis using ne(2) by simp
qed

theorem z_norm_zero_mean_unit_variance_witness:
  "z_norm exact (map Finite [1, 2, 4]) =
     map (\<lambda>a. Finite ((a - mean [1, 2, 4]) / stddev [1, 2, 4])) [1, 2, 4] \<and>
   np_mean exact (z_norm exact (map Finite [1, 2, 4])) = Finite 0 \<and>
   np_std exact (z_norm exact (map Finite [1, 2, 4])) = Finite 1"
proof -
  have "non_constant [1, 2, 4]" by (auto simp: non_constant_def)
  then show ?thesis
    using z_norm_zero_mean_unit_variance[of "[1, 2, 4]"] by blast
qed

text \<open>
  Claim C5 as stated, with mean 0 and standard deviation 1 approximately under floating
  point, fails in float64. For the non-constant \<open>x = [2^53, 2^53, 2^53, 2^53 + 4]\<close> the
  mean that \<open>np.mean\<close> returns is \<open>2^53\<close> and the standard deviation \<open>2\<close>, \<open>z_norm\<close> returns
  \<open>[0, 0, 0, 2]\<close>, and the mean of that is \<open>1 / 2\<close>.
\<close>

theorem z_norm_float64_mean_is_not_zero:
  "list_all representable [9007199254740992, 9007199254740992, 9007199254740992, 9007199254740996] \<and>
   non_constant [9007199254740992, 9007199254740992, 9007199254740992, 9007199254740996] \<and>
   np_mean float64 [Finite 9007199254740992, Finite 9007199254740992, Finite 9007199254740992,
     Finite 9007199254740996] = Finite 9007199254740992 \<and>
   np_std float64 [Finite 9007199254740992, Finite 9007199254740992, Finite 9007199254740992,
     Finite 9007199254740996] = Finite 2 \<and>
   z_norm float64 [Finite 9007199254740992, Finite 9007199254740992, Finite 9007199254740992,
     Finite 9007199254740996] = [Finite 0, Finite 0, Finite 0, Finite 2] \<and>
   np_mean float64 (z_norm float64 [Finite 9007199254740992, Finite 9007199254740992, Finite 9007199254740992,
     Finite 9007199254740996]) = Finite (1 / 2)"
  using run_representable run_non_constant
  by (simp add: run_mean run_std run_z_norm run_mean_z)

text \<open>Ten ones against ten zeros in float64. The square root of ten rounds to
  \<open>7120816245988179 / 2^51\<close>, its reciprocal to \<open>5696652996790543 / 2^54\<close>, and the
  product of the two doubles rounds to one.\<close>

lemma sqrt_10_lower: "14241632491976357 / 4503599627370496 < sqrt 10"
  by (rule real_less_rsqrt) (simp add: power2_eq_square)

lemma sqrt_10_upper: "sqrt 10 < 14241632491976359 / 4503599627370496"
  by (rule real_less_lsqrt) (simp_all add: power2_eq_square)

lemma float64_sqrt_10: "float64 (sqrt 10) = Finite (7120816245988179 / 2251799813685248)"
proof -
  have "round_half_even (sqrt 10 / pow2 (1 - 52)) = 7120816245988179"
    using sqrt_10_lower sqrt_10_upper
    by (intro round_half_even_eqI) (simp_all add: pow2_def)
  moreover have "pow2 1 \<le> \<bar>sqrt 10\<bar>" "\<bar>sqrt 10\<bar> < pow2 (1 + 1)"
    using sqrt_10_lower sqrt_10_upper by (simp_all add: pow2_def)
  ultimately show ?thesis
    using float64_eqI[of 1 "sqrt 10" 7120816245988179] by (simp add: pow2_def)
qed

lemma ten_ones:
  "norm_euclidean_distance float64 (replicate 10 (Finite 1)) (replicate 10 (Finite 0)) =
   Inr (Finite 1)"
  by (simp add: norm_euclidean_distance_def np_broadcast_def np_linalg_norm_def np_sum_def
      np_square_def eval_nat_numeral float64_roundings float64_sqrt_10)

text \<open>
  Claim C6. For sequences \<open>xs\<close>, \<open>ys\<close> of equal length n,
  \<open>norm_euclidean_distance\<close> returns \<open>1 / sqrt n\<close> times the 2-norm of \<open>xs - ys\<close> (for
  \<open>n = 0\<close> the factor \<open>1 / sqrt 0\<close> is not a number, and neither is the result); for ten
  ones against ten zeros it returns 1. In the program's own arithmetic, whatever the
  rounding, the result is that formula with each of its operations rounded; and in
  float64 the result for ten ones against ten zeros is the double 1.0 exactly.
\<close>

theorem norm_euclidean_distance_formula:
  fixes xs ys :: "real list"
  shows "(length xs = length ys \<longrightarrow>
            norm_euclidean_distance exact (map Finite xs) (map Finite ys) =
            Inr (if xs = [] then NaN
                 else Finite (1 / sqrt (real (length xs)) *
                              sqrt (\<Sum>(a, b)\<leftarrow>zip xs ys. (a - b)\<^sup>2)))) \<and>
         norm_euclidean_distance exact (replicate 10 (Finite 1)) (replicate 10 (Finite 0)) =
           Inr (Finite 1) \<and>
         (length x = length y \<longrightarrow>
            norm_euclidean_distance rnd x y =
            Inr (np_mul rnd (np_div rnd (Finite 1) (np_sqrt rnd (rnd (real (length x)))))
                            (np_sqrt rnd (np_sum rnd (map (np_square rnd) (map2 (np_sub rnd) x y)))))) \<and>
         norm_euclidean_distance float64 (replicate 10 (Finite 1)) (replicate 10 (Finite 0)) =
           Inr (Finite 1)"
proof -
  have rounded: "norm_euclidean_distance rnd x y =
            Inr (np_mul rnd (np_div rnd (Finite 1) (np_sqrt rnd (rnd (real (length x)))))
                            (np_sqrt rnd (np_sum rnd (map (np_square rnd) (map2 (np_sub rnd) x y)))))"
    if "length x = length y"
    using that by (simp add: norm_euclidean_distance_def np_broadcast_def np_linalg_norm_def)
  have general: "norm_euclidean_distance exact (map Finite xs) (map Finite ys) =
            Inr (if xs = [] then NaN
                 else Finite (1 / sqrt (real (length xs)) *
                              sqrt (\<Sum>(a, b)\<leftarrow>zip xs ys. (a - b)\<^sup>2)))"
    if "length xs = length ys" for xs ys :: "real list"
  proof -
    have "(\<Sum>d\<leftarrow>map2 (-) xs ys. d\<^sup>2) = (\<Sum>(a, b)\<leftarrow>zip xs ys. (a - b)\<^sup>2)"
      by (simp add: o_def split_def)
    then show ?thesis
      unfolding norm_euclidean_distance_Finite[OF that] by simp
  qed
  have "norm_euclidean_distance exact (map Finite (replicate 10 1)) (map Finite (replicate 10 0)) =
        Inr (Finite (1 / sqrt (real (length (replicate 10 (1::real)))) *
                     sqrt (\<Sum>(a, b)\<leftarrow>zip (replicate 10 1) (replicate 10 0). (a - b)\<^sup>2)))"
    using general[of "replicate 10 1" "replicate 10 0"] by simp
  moreover have "(\<Sum>(a, b)\<leftarrow>zip (replicate 10 (1::real)) (replicate 10 0). (a - b)\<^sup>2) = 10"
    by (simp add: zip_replicate sum_list_replicate)
  ultimately have "norm_euclidean_distance exact (replicate 10 (Finite 1)) (replicate 10 (Finite 0)) =
                   Inr (Finite 1)"
    by simp
  with general rounded ten_ones show ?thesis by blast
qed

theorem norm_euclidean_distance_formula_witness:
  "norm_euclidean_distance exact [Finite 3, Finite 0] [Finite 0, Finite 4] =
   Inr (Finite (1 / sqrt 2 * sqrt 25))"
  using norm_euclidean_distance_formula[of "[3, 0]" "[0, 4]"] by simp

section \<open>The correlation\<close>

text \<open>
  Claim C7. For equal-length sequences \<open>xs\<close>, \<open>ys\<close> of length m, \<open>pearson\<close> computes the
  mean and the population standard deviation of each sequence and returns
  \<open>(sum (xs * ys) - m * mean xs * mean ys) / (m * stddev xs * stddev ys)\<close>. The division is by
  zero, and the result NaN, exactly when the sequences are empty or one of the standard
  deviations is zero. In the program's own arithmetic, whatever the rounding, the result
  is that formula with each of its operations rounded.
\<close>

theorem pearson_formula:
  fixes xs ys :: "real list"
  assumes "length xs = length ys"
  shows "np_mean exact (map Finite xs) =
           (if xs = [] then NaN else Finite (sum_list xs / real (length xs))) \<and>
         np_std exact (map Finite xs) =
           (if xs = [] then NaN
            else Finite (sqrt ((\<Sum>a\<leftarrow>xs. (a - mean xs)\<^sup>2) / real (length xs)))) \<and>
         pearson exact (map Finite xs) (map Finite ys) =
           Inr (if xs = [] \<or> stddev xs = 0 \<or> stddev ys = 0 then NaN
                else Finite ((sum_list (map2 (*) xs ys) - real (length xs) * mean xs * mean ys) /
                             (real (length xs) * stddev xs * stddev ys))) \<and>
         (length x = length y \<longrightarrow>
            pearson rnd x y =
            Inr (np_div rnd
                  (np_sub rnd (np_sum rnd (map2 (np_mul rnd) x y))
                    (np_mul rnd (np_mul rnd (rnd (real (length x))) (np_mean rnd x)) (np_mean rnd y)))
                  (np_mul rnd (np_mul rnd (rnd (real (length x))) (np_std rnd x)) (np_std rnd y))))"
proof -
  have "pearson rnd x y =
            Inr (np_div rnd
                  (np_sub rnd (np_sum rnd (map2 (np_mul rnd) x y))
                    (np_mul rnd (np_mul rnd (rnd (real (length x))) (np_mean rnd x)) (np_mean rnd y)))
                  (np_mul rnd (np_mul rnd (rnd (real (length x))) (np_std rnd x)) (np_std rnd y)))"
    if "length x = length y"
    using that by (simp add: pearson_def np_broadcast_def Let_def)
  then show ?thesis
    unfolding np_mean_Finite np_std_Finite pearson_Finite[OF assms]
    by (simp add: mean_def stddev_def corr_def dot_def)
qed

theorem pearson_formula_witness:
  "pearson exact (map Finite [1, 2, 4]) (map Finite [3, 1, 2]) =
   Inr (Finite ((sum_list (map2 (*) [1, 2, 4] [3, 1, 2]) - 3 * mean [1, 2, 4] * mean [3, 1, 2]) /
                (3 * stddev [1, 2, 4] * stddev [3, 1, 2])))"
proof -
  have "non_constant [1, 2, 4]" and "non_constant [3, 1, 2]"
    by (auto simp: non_constant_def)
  then have "stddev [1, 2, 4] \<noteq> 0" and "stddev [3, 1, 2] \<noteq> 0"
    by (simp_all add: non_constant_iff)
  then show ?thesis
    using pearson_formula[of "[1, 2, 4]" "[3, 1, 2]"] by simp
qed

lemma np_std_Finite_nonzero:
  "np_std exact (map Finite xs) = Finite s \<Longrightarrow> s \<noteq> 0 \<Longrightarrow> non_constant xs"
  using np_std_Finite[of xs] by (cases "xs = []") (auto simp: non_constant_iff)

text \<open>
  Claim C8, as amended. In exact arithmetic, for equal-length sequences \<open>xs\<close>, \<open>ys\<close> whose
  standard deviations are both nonzero numbers, the value returned by \<open>pearson\<close> lies in
  the interval [-1, 1], and \<open>pearson_dist\<close> returns the square root of
  \<open>2 * (1 - pearson xs ys)\<close>, a number that is not negative.
\<close>

theorem pearson_in_unit_interval:
  fixes xs ys :: "real list"
  assumes "length xs = length ys"
    and "np_std exact (map Finite xs) = Finite sx" and "sx \<noteq> 0"
    and "np_std exact (map Finite ys) = Finite sy" and "sy \<noteq> 0"
  shows "\<exists>r. pearson exact (map Finite xs) (map Finite ys) = Inr (Finite r) \<and> - 1 \<le> r \<and> r \<le> 1 \<and>
             pearson_dist exact (map Finite xs) (map Finite ys) = Inr (Finite (sqrt (2 * (1 - r)))) \<and>
             0 \<le> sqrt (2 * (1 - r))"
proof -
  have nc: "non_constant xs" "non_constant ys"
    using assms(2-5) by (auto intro: np_std_Finite_nonzero)
  have "pearson exact (map Finite xs) (map Finite ys) = Inr (Finite (corr xs ys))"
    using assms(1) nc by (simp add: pearson_Finite non_constant_iff)
  moreover have "- 1 \<le> corr xs ys" "corr xs ys \<le> 1"
    using corr_ge_m1[OF assms(1) nc] corr_le_1[OF assms(1) nc] by simp_all
  moreover have "pearson_dist exact (map Finite xs) (map Finite ys) =
                 Inr (Finite (sqrt (2 * (1 - corr xs ys))))"
    by (rule pearson_dist_Finite[OF assms(1) nc])
  ultimately show ?thesis by auto
qed

theorem pearson_in_unit_interval_witness:
  "\<exists>r. pearson exact (map Finite [1, 2]) (map Finite [4, 3]) = Inr (Finite r) \<and> - 1 \<le> r \<and> r \<le> 1 \<and>
       pearson_dist exact (map Finite [1, 2]) (map Finite [4, 3]) = Inr (Finite (sqrt (2 * (1 - r)))) \<and>
       0 \<le> sqrt (2 * (1 - r))"
proof -
  have s: "stddev [1, 2] = 1 / 2" "stddev [4, 3] = 1 / 2"
    by (simp_all add: stddev_def mean_def power2_eq_square real_sqrt_divide)
  have "np_std exact (map Finite [1, 2]) = Finite (1 / 2)" "np_std exact (map Finite [4, 3]) = Finite (1 / 2)"
    unfolding np_std_Finite s by simp_all
  then show ?thesis
    by (intro pearson_in_unit_interval[of "[1, 2]" "[4, 3]" "1 / 2" "1 / 2"]) simp_all
qed

text \<open>
  Claim C8 as stated, of the values the program computes, fails in float64. For
  \<open>x = y = [2^53, 2^53, 2^53, 2^53 + 4]\<close> both standard deviations are \<open>2\<close>, and
  \<open>pearson\<close> returns \<open>(2^108 + 2^56 - 2^108) / (4 * 2 * 2) = 2^52\<close>, far outside
  [-1, 1]; \<open>pearson_dist\<close> returns NaN, not a number \<open>\<ge> 0\<close>.
\<close>

theorem pearson_float64_leaves_unit_interval:
  "list_all representable [9007199254740992, 9007199254740992, 9007199254740992, 9007199254740996] \<and>
   np_std float64 [Finite 9007199254740992, Finite 9007199254740992, Finite 9007199254740992,
     Finite 9007199254740996] = Finite 2 \<and>
   pearson float64 [Finite 9007199254740992, Finite 9007199254740992, Finite 9007199254740992,
     Finite 9007199254740996]
     [Finite 9007199254740992, Finite 9007199254740992, Finite 9007199254740992,
     Finite 9007199254740996] = Inr (Finite 4503599627370496) \<and>
   (1::real) < 4503599627370496 \<and>
   pearson_dist float64 [Finite 9007199254740992, Finite 9007199254740992, Finite 9007199254740992,
     Finite 9007199254740996]
     [Finite 9007199254740992, Finite 9007199254740992, Finite 9007199254740992,
     Finite 9007199254740996] = Inr NaN"
  using run_representable by (simp add: run_std run_pearson run_pearson_dist)

section \<open>Failures\<close>

lemma np_std_zero:
  "np_std exact (map Finite xs) = Finite 0 \<longleftrightarrow> xs \<noteq> [] \<and> stddev xs = 0"
  by (simp add: np_std_Finite)

lemma np_std_nonzero:
  "xs \<noteq> [] \<Longrightarrow> np_std exact (map Finite xs) \<noteq> Finite 0 \<Longrightarrow> non_constant xs"
  by (simp add: np_std_Finite non_constant_iff)

lemma prefix_all_finite: "list_all is_finite (Finite 0 # np_cumsum exact (map Finite xs))"
  unfolding list_all_length
proof (intro allI impI)
  fix k assume "k < length (Finite 0 # np_cumsum exact (map Finite xs))"
  then have "k \<le> length xs" by (simp add: length_np_cumsum)
  then show "is_finite ((Finite 0 # np_cumsum exact (map Finite xs)) ! k)"
    by (simp only: prefix_nth) simp
qed

lemma M_final_all_finite:
  assumes "row \<in> set (M_final exact (map Finite xs) (map Finite ys))"
  shows "list_all is_finite row"
  unfolding list_all_length
proof (intro allI impI)
  fix j assume j: "j < length row"
  let ?M = "M_final exact (map Finite xs) (map Finite ys)"
  from assms obtain i where i: "i < length ?M" and row: "row = ?M ! i"
    unfolding in_set_conv_nth by blast
  from i have il: "i \<le> length (map Finite xs)" by (simp add: M_final_length)
  from j row il have jl: "j \<le> length (map Finite ys)" by (simp add: M_final_row_length)
  have "?M ! i ! j = M_cell exact (map Finite xs) (map Finite ys) i j"
    by (rule M_final_nth[OF il jl])
  moreover obtain c where "M_cell exact (map Finite xs) (map Finite ys) i j = Finite c"
    using M_cell_Finite[of i xs j ys] il jl by auto
  ultimately show "is_finite (row ! j)" using row by simp
qed

lemma finite_result_simps [simp]:
  "finite_result (Inr (Finite a))" "\<not> finite_result (Inr NaN)" "\<not> finite_result (Inl e)"
  by (simp_all add: finite_result_def)

lemma pearson_dist_singular:
  "pearson exact x y = Inr NaN \<Longrightarrow> pearson_dist exact x y = Inr NaN"
  by (simp add: pearson_dist_def)

lemma pearson_metrics_finite:
  fixes xs ys :: "real list"
  assumes "0 < l" "u + l \<le> length xs" "v + l \<le> length ys"
    and "np_std exact (slice (map Finite xs) u (u + l)) \<noteq> Finite 0"
    and "np_std exact (slice (map Finite ys) v (v + l)) \<noteq> Finite 0"
    and "calculate_metric_arrays exact (map Finite xs) (map Finite ys) = Inr (S_x, S_x2, S_y, S_y2, M)"
  shows "finite_result (pearson_metrics exact (int u) (int v) (int l) S_x S_x2 S_y S_y2 M) \<and>
         finite_result (pearson_dist_metrics exact (int u) (int v) (int l) S_x S_x2 S_y S_y2 M)"
proof -
  let ?wx = "slice xs u (u + l)" and ?wy = "slice ys v (v + l)"
  have len: "length ?wx = length ?wy" "?wx \<noteq> []" "?wy \<noteq> []"
    using assms(1-3) length_slice[of "u + l" xs u] length_slice[of "v + l" ys v] by auto
  have nc: "non_constant ?wx" "non_constant ?wy"
    using assms(4,5) len(2,3) by (auto simp: slice_map intro: np_std_nonzero)
  have p: "pearson_metrics exact (int u) (int v) (int l) S_x S_x2 S_y S_y2 M =
           pearson exact (map Finite ?wx) (map Finite ?wy)"
    using pearson_dist_metrics_window[OF assms(2,3,6)] by (simp add: slice_map)
  have d: "pearson_dist_metrics exact (int u) (int v) (int l) S_x S_x2 S_y S_y2 M =
           pearson_dist exact (map Finite ?wx) (map Finite ?wy)"
    unfolding pearson_dist_metrics_def pearson_dist_def p ..
  have "pearson exact (map Finite ?wx) (map Finite ?wy) = Inr (Finite (corr ?wx ?wy))"
    using len(1) nc by (simp add: pearson_Finite non_constant_iff)
  then show ?thesis
    unfolding p d pearson_dist_Finite[OF len(1) nc] by simp
qed

text \<open>Division by a computed zero, whatever the rounding.\<close>

lemma np_div_zero: "\<not> is_finite (np_div rnd a (Finite 0))"
  by (cases a) (simp_all add: inf_of_def)

lemma np_div_NaN: "np_div rnd a NaN = NaN"
  by (cases a) simp_all

lemma np_mul_zero_right:
  "rnd 0 = Finite 0 \<Longrightarrow> np_mul rnd a (Finite 0) = Finite 0 \<or> np_mul rnd a (Finite 0) = NaN"
  by (cases a) simp_all

lemma np_mul_zero_left:
  "rnd 0 = Finite 0 \<Longrightarrow> np_mul rnd (Finite 0) b = Finite 0 \<or> np_mul rnd (Finite 0) b = NaN"
  by (cases b) simp_all

lemma np_mul_NaN_left: "np_mul rnd NaN b = NaN"
  by simp

lemma z_norm_zero_std:
  assumes "np_std rnd x = Finite 0"
  shows "list_all (\<lambda>a. \<not> is_finite a) (z_norm rnd x)"
  using assms by (simp add: z_norm_def list_all_iff np_div_zero)

lemma pearson_zero_std:
  assumes "rnd 0 = Finite 0" and "length x = length y"
    and "np_std rnd x = Finite 0 \<or> np_std rnd y = Finite 0"
  shows "\<exists>r. pearson rnd x y = Inr r \<and> \<not> is_finite r"
proof -
  let ?m = "rnd (real (length x))"
  let ?den = "np_mul rnd (np_mul rnd ?m (np_std rnd x)) (np_std rnd y)"
  have den: "?den = Finite 0 \<or> ?den = NaN"
  proof (cases "np_std rnd x = Finite 0")
    case True
    from assms(1) np_mul_zero_right[of rnd ?m]
    have "np_mul rnd ?m (np_std rnd x) = Finite 0 \<or> np_mul rnd ?m (np_std rnd x) = NaN"
      by (simp only: True)
    then show ?thesis
      using assms(1) np_mul_zero_left[of rnd "np_std rnd y"] by (auto simp: np_mul_NaN_left)
  next
    case False
    with assms(3) have "np_std rnd y = Finite 0" by simp
    then show ?thesis
      using assms(1) np_mul_zero_right[of rnd "np_mul rnd ?m (np_std rnd x)"] by simp
  qed
  have "\<not> is_finite (np_div rnd a ?den)" for a
    using den np_div_zero[of rnd a] by (auto simp: np_div_NaN)
  then show ?thesis
    using assms(2) by (simp add: pearson_def np_broadcast_def Let_def)
qed

lemma distance_of_not_finite:
  "\<not> is_finite r \<Longrightarrow> \<not> is_finite (np_sqrt rnd (np_mul rnd (Finite 2) (np_sub rnd (Finite 1) r)))"
  by (cases r) simp_all

lemma pearson_dist_zero_std:
  assumes "rnd 0 = Finite 0" and "length x = length y"
    and "np_std rnd x = Finite 0 \<or> np_std rnd y = Finite 0"
  shows "\<exists>d. pearson_dist rnd x y = Inr d \<and> \<not> is_finite d"
  using pearson_zero_std[OF assms] by (auto simp: pearson_dist_def distance_of_not_finite)

text \<open>With equal lengths, and windows inside the sequences, nothing is raised.\<close>

lemma equal_lengths_return:
  assumes "length x = length y"
  shows "(\<exists>r. norm_euclidean_distance rnd x y = Inr r) \<and> (\<exists>r. pearson rnd x y = Inr r) \<and>
         (\<exists>r. pearson_dist rnd x y = Inr r)"
  using assms
  by (simp add: norm_euclidean_distance_def pearson_dist_def pearson_def np_broadcast_def Let_def)

lemma pearson_metrics_returns:
  assumes "u + l \<le> length x" "v + l \<le> length y"
  shows "\<exists>r. pearson_metrics rnd (int u) (int v) (int l)
           (Finite 0 # np_cumsum rnd x) (Finite 0 # np_cumsum rnd (map (np_square rnd) x))
           (Finite 0 # np_cumsum rnd y) (Finite 0 # np_cumsum rnd (map (np_square rnd) y))
           (M_final rnd x y) = Inr r"
proof -
  have ul: "int u + int l = int (u + l)" and vl: "int v + int l = int (v + l)" by simp_all
  have bounds: "u + l \<le> length x" "u \<le> length x" "v + l \<le> length y" "v \<le> length y"
    "u + l \<le> length (map (np_square rnd) x)" "u \<le> length (map (np_square rnd) x)"
    "v + l \<le> length (map (np_square rnd) y)" "v \<le> length (map (np_square rnd) y)"
    using assms by simp_all
  show ?thesis
    unfolding pearson_metrics_def ul vl
      getitem_prefix[OF bounds(1)] getitem_prefix[OF bounds(2)]
      getitem_prefix[OF bounds(3)] getitem_prefix[OF bounds(4)]
      getitem_prefix[OF bounds(5)] getitem_prefix[OF bounds(6)]
      getitem_prefix[OF bounds(7)] getitem_prefix[OF bounds(8)]
      getitem2_M_final[OF bounds(1,3)] getitem2_M_final[OF bounds(2,4)]
      and_then_Inr Let_def
    by blast
qed

lemma pearson_dist_metrics_returns:
  assumes "u + l \<le> length x" "v + l \<le> length y"
  shows "\<exists>d. pearson_dist_metrics rnd (int u) (int v) (int l)
           (Finite 0 # np_cumsum rnd x) (Finite 0 # np_cumsum rnd (map (np_square rnd) x))
           (Finite 0 # np_cumsum rnd y) (Finite 0 # np_cumsum rnd (map (np_square rnd) y))
           (M_final rnd x y) = Inr d"
  using pearson_metrics_returns[OF assms, of rnd] by (auto simp: pearson_dist_metrics_def)

text \<open>Three runs in float64, used below: a constant array of twos, whose computed standard
  deviation is zero; a constant array of the double nearest to one tenth, whose sum
  rounds, so that its computed mean differs from its elements and its computed standard
  deviation is \<open>2^-56\<close>, not zero; and two arrays of standard deviation one.\<close>

lemma twos_std: "np_std float64 [Finite 2, Finite 2, Finite 2] = Finite 0"
  by (simp add: np_std_def np_mean_def np_sum_def np_square_def float64_roundings sqrt_roundings)

lemma tenths_std:
  "np_std float64 [Finite (3602879701896397 / 36028797018963968), Finite (3602879701896397 / 36028797018963968),
     Finite (3602879701896397 / 36028797018963968)] = Finite (1 / 72057594037927936)"
  by (simp add: np_std_def np_mean_def np_sum_def np_square_def float64_roundings sqrt_roundings)

lemma tenths_mean:
  "np_mean float64 [Finite (3602879701896397 / 36028797018963968), Finite (3602879701896397 / 36028797018963968),
     Finite (3602879701896397 / 36028797018963968)] = Finite (3602879701896397 / 36028797018963968 + 1 / 72057594037927936)"
  by (simp add: np_mean_def np_sum_def float64_roundings)

lemma tenths_z_norm:
  "z_norm float64 [Finite (3602879701896397 / 36028797018963968), Finite (3602879701896397 / 36028797018963968),
     Finite (3602879701896397 / 36028797018963968)] = [Finite (- 1), Finite (- 1), Finite (- 1)]"
  using tenths_mean by (simp add: z_norm_def tenths_std float64_roundings)

lemma pair_std:
  "np_std float64 [Finite 1, Finite 3] = Finite 1"
  "np_std float64 [Finite 0, Finite 2, Finite 0, Finite 2] = Finite 1"
  by (simp_all add: np_std_def np_mean_def np_sum_def np_square_def float64_roundings
      sqrt_roundings)

lemma small_arrays:
  "calculate_metric_arrays float64 [Finite 1, Finite 2] [Finite 3, Finite 4] =
     Inr ([Finite 0, Finite 1, Finite 3], [Finite 0, Finite 1, Finite 5],
          [Finite 0, Finite 3, Finite 7], [Finite 0, Finite 9, Finite 25],
          [[Finite 0, Finite 0, Finite 0], [Finite 0, Finite 3, Finite 4],
           [Finite 0, Finite 6, Finite 11]])"
  by (simp add: calculate_metric_arrays_eq M_final_def np_cumsum_def np_square_def
      float64_roundings)




end
